theory Spec2Isabelle
  imports Complex_Main "HOL-Library.Char_ord" "HOL-Library.List_Lexorder"
    "HOL-Library.Product_Lexorder"
begin

section \<open>Clinic dashboard data-access hooks\<close>

text \<open>
  The development embeds the three React hooks of the repository:
  \<^verbatim>\<open>useStats\<close>, \<^verbatim>\<open>useTodayAppointments\<close> (both revisions kept in the source
  file) and \<^verbatim>\<open>useProfessionals\<close>. A hook's component-local state is a record
  that every operation returns updated; the console, the toast notifier and the
  remote store form an explicit environment; an exception is the left injection of
  a sum. An awaited query either resolves with a response object (whose
  \<^verbatim>\<open>error\<close> field may be set) or rejects, and both outcomes are branches of
  the model.
\<close>

subsection \<open>Time values and their ISO rendering\<close>

text \<open>
  A JavaScript \<^verbatim>\<open>Date\<close> is a number of milliseconds since the epoch. The
  calendar fields are computed by the usual era-based conversion of a day number
  to a proleptic Gregorian date; \<open>div\<close> and \<open>mod\<close> on \<open>int\<close> round towards minus
  infinity, as the language's \<^verbatim>\<open>floor\<close>-based definitions do. The local time
  zone is a fixed offset in minutes east of UTC.
\<close>

definition msPerDay :: int where
  "msPerDay = 86400000"

definition msPerMinute :: int where
  "msPerMinute = 60000"

definition Day :: "int \<Rightarrow> int" where
  "Day t = t div msPerDay"

definition TimeWithinDay :: "int \<Rightarrow> int" where
  "TimeWithinDay t = t mod msPerDay"

definition LocalTime :: "int \<Rightarrow> int \<Rightarrow> int" where
  "LocalTime tz t = t + tz * msPerMinute"

definition civil_from_days :: "int \<Rightarrow> int \<times> int \<times> int" where
  "civil_from_days n =
     (let z = n + 719468;
          era = z div 146097;
          doe = z mod 146097;
          yoe = (doe - doe div 1460 + doe div 36524 - doe div 146096) div 365;
          doy = doe - (365 * yoe + yoe div 4 - yoe div 100);
          mp = (5 * doy + 2) div 153;
          d = doy - (153 * mp + 2) div 5 + 1;
          m = (if mp < 10 then mp + 3 else mp - 9);
          y = yoe + era * 400
      in (if m \<le> 2 then y + 1 else y, m, d))"

definition HourFromTime :: "int \<Rightarrow> int" where
  "HourFromTime t = (t div 3600000) mod 24"

definition MinFromTime :: "int \<Rightarrow> int" where
  "MinFromTime t = (t div 60000) mod 60"

definition SecFromTime :: "int \<Rightarrow> int" where
  "SecFromTime t = (t div 1000) mod 60"

definition msFromTime :: "int \<Rightarrow> int" where
  "msFromTime t = t mod 1000"

definition digit :: "int \<Rightarrow> char" where
  "digit n = char_of (48 + n mod 10)"

fun pad :: "nat \<Rightarrow> int \<Rightarrow> string" where
  "pad 0 n = []"
| "pad (Suc k) n = pad k (n div 10) @ [digit n]"

definition year_str :: "int \<Rightarrow> string" where
  "year_str y =
     (if 0 \<le> y \<and> y \<le> 9999 then pad 4 y
      else (if y < 0 then CHR ''-'' else CHR ''+'') # pad 6 \<bar>y\<bar>)"

definition iso_date :: "int \<times> int \<times> int \<Rightarrow> string" where
  "iso_date c = (case c of (y, m, d) \<Rightarrow> year_str y @ ''-'' @ pad 2 m @ ''-'' @ pad 2 d)"

definition iso_time :: "int \<Rightarrow> string" where
  "iso_time t =
     pad 2 (HourFromTime t) @ '':'' @ pad 2 (MinFromTime t) @ '':'' @
     pad 2 (SecFromTime t) @ ''.'' @ pad 3 (msFromTime t) @ ''Z''"

text \<open>\<^verbatim>\<open>Date.prototype.toISOString\<close>: the UTC fields, \<^verbatim>\<open>YYYY-MM-DDTHH:mm:ss.sssZ\<close>.\<close>

definition toISOString :: "int \<Rightarrow> string" where
  "toISOString t = iso_date (civil_from_days (Day t)) @ ''T'' @ iso_time t"

text \<open>\<^verbatim>\<open>s.split('T')[0]\<close>: the part of \<open>s\<close> before its first \<^verbatim>\<open>T\<close>.\<close>

definition split_T_0 :: "string \<Rightarrow> string" where
  "split_T_0 s = takeWhile (\<lambda>c. c \<noteq> CHR ''T'') s"

text \<open>\<^verbatim>\<open>const hoje = new Date().toISOString().split('T')[0]\<close>, at the instant \<open>now\<close>.\<close>

definition hoje :: "int \<Rightarrow> string" where
  "hoje now = split_T_0 (toISOString now)"

text \<open>
  \<^verbatim>\<open>d.setDate(1)\<close> works on the local fields: the day of the month becomes 1 and
  the time within the day is kept.
\<close>

definition setDate_1 :: "int \<Rightarrow> int \<Rightarrow> int" where
  "setDate_1 tz t =
     (case civil_from_days (Day (LocalTime tz t)) of
        (y, m, d) \<Rightarrow> t - (d - 1) * msPerDay)"

text \<open>The calendar date, as a string, that a clock in zone \<open>tz\<close> shows at \<open>t\<close>.\<close>

definition local_date :: "int \<Rightarrow> int \<Rightarrow> string" where
  "local_date tz t = iso_date (civil_from_days (Day (LocalTime tz t)))"

definition utc_date :: "int \<Rightarrow> string" where
  "utc_date t = iso_date (civil_from_days (Day t))"

subsection \<open>Authentication context, errors, console and notifier\<close>

text \<open>\<^verbatim>\<open>useAuth()\<close> supplies the user (here: its \<^verbatim>\<open>id\<close>, when present) and a loading flag.\<close>

record auth =
  user :: "string option"
  authLoading :: bool

datatype js_error = Error (message: string)

text \<open>
  Console output is kept as a list of entries, oldest first. An entry holds the
  message text of the call (without its leading pictograph and without the extra
  values printed after it), and for \<^verbatim>\<open>console.error\<close> the error object.
\<close>

datatype console_entry = Console_log string | Console_error string "js_error option"

record toast =
  title :: string
  description :: string
  variant :: "string option"

text \<open>Letters outside ASCII, as their UTF-8 bytes.\<close>

definition a_acute :: string where
  "a_acute = [CHR 0xC3, CHR 0xA1]"

definition a_tilde :: string where
  "a_tilde = [CHR 0xC3, CHR 0xA3]"

definition i_acute :: string where
  "i_acute = [CHR 0xC3, CHR 0xAD]"

definition c_cedilla :: string where
  "c_cedilla = [CHR 0xC3, CHR 0xA7]"

definition nao_foi_possivel :: string where
  "nao_foi_possivel = ''N'' @ a_tilde @ ''o foi poss'' @ i_acute @ ''vel ''"

definition usuario_nao_autenticado :: js_error where
  "usuario_nao_autenticado = Error (''Usu'' @ a_acute @ ''rio n'' @ a_tilde @ ''o autenticado'')"

text \<open>\<^verbatim>\<open>error.message || fallback\<close>: the empty string is falsy.\<close>

definition message_or :: "js_error \<Rightarrow> string \<Rightarrow> string" where
  "message_or x d = (if message x = [] then d else message x)"

subsection \<open>The remote store\<close>

text \<open>
  The hosted database is not part of the repository. It is modelled as four tables,
  on which the query chains written in the hooks have their usual meaning:
  \<^verbatim>\<open>eq\<close>, \<^verbatim>\<open>gte\<close> and \<^verbatim>\<open>lt\<close> filter the rows, \<^verbatim>\<open>order\<close> sorts them,
  \<^verbatim>\<open>single\<close> demands exactly one row, and a count query returns the number of
  rows that pass the filters. Every request the hooks send is also recorded, so that
  "no query was issued" can be stated.
\<close>

record professional_data =
  nome :: string
  tipo :: string
  registro :: string
  especialidade :: string
  telefone :: string
  email :: string
  horario_inicio :: "string option"
  horario_fim :: "string option"
  dias_atendimento :: "string list option"
  observacoes :: "string option"
  status :: "string option"

text \<open>\<^verbatim>\<open>Professional\<close> is the data plus \<^verbatim>\<open>id\<close>; a stored row also has its owner.\<close>

record professional = professional_data +
  prof_id :: string

record professional_row = professional +
  user_id :: string

text \<open>\<^verbatim>\<open>Partial<Professional>\<close>: every field may be absent.\<close>

record professional_patch =
  upd_id :: "string option"
  upd_nome :: "string option"
  upd_tipo :: "string option"
  upd_registro :: "string option"
  upd_especialidade :: "string option"
  upd_telefone :: "string option"
  upd_email :: "string option"
  upd_horario_inicio :: "string option"
  upd_horario_fim :: "string option"
  upd_dias_atendimento :: "string list option"
  upd_observacoes :: "string option"
  upd_status :: "string option"

record related =
  rel_nome :: "string option"

text \<open>
  An appointment row as the select with the two embedded resources returns it:
  \<^verbatim>\<open>patient\<close> and \<^verbatim>\<open>professional\<close> are the related rows, when they exist.
\<close>

record appointment_row =
  apt_id :: string
  apt_user_id :: string
  data_agendamento :: string
  apt_tipo :: "string option"
  apt_status :: "string option"
  apt_patient :: "related option"
  apt_professional :: "related option"

record patient_row =
  pat_user_id :: string

record consultation_row =
  con_user_id :: string
  created_at :: string

record remote =
  professionals :: "professional_row list"
  appointments :: "appointment_row list"
  patients :: "patient_row list"
  consultations :: "consultation_row list"

text \<open>
  What a query comes back with: the promise resolves with a response object,
  \<^verbatim>\<open>{data, error}\<close> or \<^verbatim>\<open>{count, error}\<close>, or it rejects. A \<open>fault\<close> says
  which of the two failures, if any, the store produces for one request.
\<close>

record 'a response =
  data :: "'a option"
  error :: "js_error option"

record count_response =
  count :: "nat option"
  count_error :: "js_error option"

datatype 'a promise = Resolved 'a | Rejected js_error

datatype fault = No_fault | Query_error js_error | Rejects js_error

datatype request =
    Select_professionals string
  | Select_professional string string
  | Insert_professional professional_data string
  | Update_professional professional_patch string string
  | Delete_professional string string
  | Count_patients string
  | Count_appointments string string string
  | Count_consultations string string
  | Select_appointments string string string

text \<open>Everything outside a hook's own state.\<close>

record env =
  store :: remote
  sent :: "request list"
  console :: "console_entry list"
  toasts :: "toast list"

definition console_log :: "string \<Rightarrow> env \<Rightarrow> env" where
  "console_log m e = e\<lparr>console := console e @ [Console_log m]\<rparr>"

definition console_error :: "string \<Rightarrow> js_error option \<Rightarrow> env \<Rightarrow> env" where
  "console_error m x e = e\<lparr>console := console e @ [Console_error m x]\<rparr>"

definition show_toast :: "toast \<Rightarrow> env \<Rightarrow> env" where
  "show_toast t e = e\<lparr>toasts := toasts e @ [t]\<rparr>"

definition send :: "request \<Rightarrow> env \<Rightarrow> env" where
  "send q e = e\<lparr>sent := sent e @ [q]\<rparr>"

definition respond :: "fault \<Rightarrow> js_error + 'a \<Rightarrow> 'a response promise" where
  "respond f r =
     (case f of
        Rejects x \<Rightarrow> Rejected x
      | Query_error x \<Rightarrow> Resolved \<lparr>data = None, error = Some x\<rparr>
      | No_fault \<Rightarrow>
          (case r of
             Inl x \<Rightarrow> Resolved \<lparr>data = None, error = Some x\<rparr>
           | Inr v \<Rightarrow> Resolved \<lparr>data = Some v, error = None\<rparr>))"

definition respond_count :: "fault \<Rightarrow> nat \<Rightarrow> count_response promise" where
  "respond_count f n =
     (case f of
        Rejects x \<Rightarrow> Rejected x
      | Query_error x \<Rightarrow> Resolved \<lparr>count = None, count_error = Some x\<rparr>
      | No_fault \<Rightarrow> Resolved \<lparr>count = Some n, count_error = None\<rparr>)"

text \<open>\<^verbatim>\<open>.single()\<close>: exactly one row, otherwise an error.\<close>

definition single :: "'a list \<Rightarrow> js_error + 'a" where
  "single rows =
     (case rows of
        [r] \<Rightarrow> Inr r
      | _ \<Rightarrow> Inl (Error ''JSON object requested, multiple (or no) rows returned''))"

definition owned_by :: "string \<Rightarrow> string \<Rightarrow> professional_row \<Rightarrow> bool" where
  "owned_by pid uid r \<longleftrightarrow> prof_id r = pid \<and> user_id r = uid"

definition apply_patch :: "professional_patch \<Rightarrow> professional_row \<Rightarrow> professional_row" where
  "apply_patch p r =
     r\<lparr>prof_id := (case upd_id p of None \<Rightarrow> prof_id r | Some v \<Rightarrow> v),
       nome := (case upd_nome p of None \<Rightarrow> nome r | Some v \<Rightarrow> v),
       tipo := (case upd_tipo p of None \<Rightarrow> tipo r | Some v \<Rightarrow> v),
       registro := (case upd_registro p of None \<Rightarrow> registro r | Some v \<Rightarrow> v),
       especialidade := (case upd_especialidade p of None \<Rightarrow> especialidade r | Some v \<Rightarrow> v),
       telefone := (case upd_telefone p of None \<Rightarrow> telefone r | Some v \<Rightarrow> v),
       email := (case upd_email p of None \<Rightarrow> email r | Some v \<Rightarrow> v),
       horario_inicio := (case upd_horario_inicio p of None \<Rightarrow> horario_inicio r | Some v \<Rightarrow> Some v),
       horario_fim := (case upd_horario_fim p of None \<Rightarrow> horario_fim r | Some v \<Rightarrow> Some v),
       dias_atendimento :=
         (case upd_dias_atendimento p of None \<Rightarrow> dias_atendimento r | Some v \<Rightarrow> Some v),
       observacoes := (case upd_observacoes p of None \<Rightarrow> observacoes r | Some v \<Rightarrow> Some v),
       status := (case upd_status p of None \<Rightarrow> status r | Some v \<Rightarrow> Some v)\<rparr>"

definition new_row :: "professional_data \<Rightarrow> string \<Rightarrow> string \<Rightarrow> professional_row" where
  "new_row d new_id uid =
     \<lparr>nome = nome d, tipo = tipo d, registro = registro d, especialidade = especialidade d,
      telefone = telefone d, email = email d, horario_inicio = horario_inicio d,
      horario_fim = horario_fim d, dias_atendimento = dias_atendimento d,
      observacoes = observacoes d, status = status d, prof_id = new_id, user_id = uid\<rparr>"

text \<open>
  The queries the hooks build, run against the store. Text columns and bounds are
  compared as strings, character by character; \<^verbatim>\<open>order\<close> sorts by the same
  order and keeps the stored order among equal keys.
\<close>

definition q_select_professionals ::
  "fault \<Rightarrow> string \<Rightarrow> env \<Rightarrow> professional_row list response promise \<times> env" where
  "q_select_professionals f uid e =
     (respond f (Inr (sort_key nome (filter (\<lambda>r. user_id r = uid) (professionals (store e))))),
      send (Select_professionals uid) e)"

definition q_select_professional ::
  "fault \<Rightarrow> string \<Rightarrow> string \<Rightarrow> env \<Rightarrow> professional_row response promise \<times> env" where
  "q_select_professional f pid uid e =
     (respond f (single (filter (owned_by pid uid) (professionals (store e)))),
      send (Select_professional pid uid) e)"

text \<open>
  \<^verbatim>\<open>insert([{...professionalData, user_id}]).select().single()\<close>; \<open>new_id\<close> is the
  identifier the store gives the new row.
\<close>

definition q_insert_professional ::
  "fault \<Rightarrow> string \<Rightarrow> professional_data \<Rightarrow> string \<Rightarrow> env \<Rightarrow>
     professional_row response promise \<times> env" where
  "q_insert_professional f new_id d uid e =
     (let e' = send (Insert_professional d uid) e; r = new_row d new_id uid
      in case f of
           No_fault \<Rightarrow>
             (respond f (Inr r),
              e'\<lparr>store := (store e')\<lparr>professionals := professionals (store e') @ [r]\<rparr>\<rparr>)
         | _ \<Rightarrow> (respond f (Inr r), e'))"

text \<open>
  \<^verbatim>\<open>update(patch).eq('id', id).eq('user_id', uid).select().single()\<close>: the rows that
  match are patched; a result that is not exactly one row is an error and changes
  nothing.
\<close>

definition q_update_professional ::
  "fault \<Rightarrow> professional_patch \<Rightarrow> string \<Rightarrow> string \<Rightarrow> env \<Rightarrow>
     professional_row response promise \<times> env" where
  "q_update_professional f p pid uid e =
     (let e' = send (Update_professional p pid uid) e;
          rows = professionals (store e');
          hit = filter (owned_by pid uid) rows
      in case f of
           No_fault \<Rightarrow>
             (case hit of
                [r] \<Rightarrow>
                  (respond f (Inr (apply_patch p r)),
                   e'\<lparr>store := (store e')\<lparr>professionals :=
                        map (\<lambda>r. if owned_by pid uid r then apply_patch p r else r) rows\<rparr>\<rparr>)
              | _ \<Rightarrow> (respond f (single hit), e'))
         | _ \<Rightarrow> (respond f (single hit), e'))"

text \<open>\<^verbatim>\<open>delete().eq('id', id).eq('user_id', uid)\<close>: no row is asked back.\<close>

definition q_delete_professional ::
  "fault \<Rightarrow> string \<Rightarrow> string \<Rightarrow> env \<Rightarrow> unit response promise \<times> env" where
  "q_delete_professional f pid uid e =
     (let e' = send (Delete_professional pid uid) e
      in case f of
           No_fault \<Rightarrow>
             (Resolved \<lparr>data = None, error = None\<rparr>,
              e'\<lparr>store := (store e')\<lparr>professionals :=
                   filter (\<lambda>r. \<not> owned_by pid uid r) (professionals (store e'))\<rparr>\<rparr>)
         | Query_error x \<Rightarrow> (Resolved \<lparr>data = None, error = Some x\<rparr>, e')
         | Rejects x \<Rightarrow> (Rejected x, e'))"

definition q_count_patients :: "fault \<Rightarrow> string \<Rightarrow> env \<Rightarrow> count_response promise \<times> env" where
  "q_count_patients f uid e =
     (respond_count f (length (filter (\<lambda>r. pat_user_id r = uid) (patients (store e)))),
      send (Count_patients uid) e)"

definition in_window :: "string \<Rightarrow> string \<Rightarrow> string \<Rightarrow> appointment_row \<Rightarrow> bool" where
  "in_window uid lo hi r \<longleftrightarrow>
     apt_user_id r = uid \<and> lo \<le> data_agendamento r \<and> data_agendamento r < hi"

definition q_count_appointments ::
  "fault \<Rightarrow> string \<Rightarrow> string \<Rightarrow> string \<Rightarrow> env \<Rightarrow> count_response promise \<times> env" where
  "q_count_appointments f uid lo hi e =
     (respond_count f (length (filter (in_window uid lo hi) (appointments (store e)))),
      send (Count_appointments uid lo hi) e)"

definition created_since :: "string \<Rightarrow> string \<Rightarrow> consultation_row \<Rightarrow> bool" where
  "created_since uid lo r \<longleftrightarrow> con_user_id r = uid \<and> lo \<le> created_at r"

definition q_count_consultations ::
  "fault \<Rightarrow> string \<Rightarrow> string \<Rightarrow> env \<Rightarrow> count_response promise \<times> env" where
  "q_count_consultations f uid lo e =
     (respond_count f (length (filter (created_since uid lo) (consultations (store e)))),
      send (Count_consultations uid lo) e)"

definition fetch_appointments :: "string \<Rightarrow> string \<Rightarrow> string \<Rightarrow> remote \<Rightarrow> appointment_row list" where
  "fetch_appointments uid lo hi db =
     sort_key data_agendamento (filter (in_window uid lo hi) (appointments db))"

definition q_select_appointments ::
  "fault \<Rightarrow> string \<Rightarrow> string \<Rightarrow> string \<Rightarrow> env \<Rightarrow> appointment_row list response promise \<times> env" where
  "q_select_appointments f uid lo hi e =
     (respond f (Inr (fetch_appointments uid lo hi (store e))),
      send (Select_appointments uid lo hi) e)"

subsection \<open>useProfessionals\<close>

text \<open>
  The hook's state is its \<^verbatim>\<open>loading\<close> flag. Each operation takes the flag and
  the environment and returns its result with both updated. The body of the
  \<^verbatim>\<open>try\<close> block is a function of its own returning either the thrown error or
  the value; \<^verbatim>\<open>catch\<close> and \<^verbatim>\<open>finally\<close> are applied by the operation.
\<close>

definition destructive :: "string \<Rightarrow> string \<Rightarrow> toast" where
  "destructive t d = \<lparr>title = t, description = d, variant = Some ''destructive''\<rparr>"

definition getProfessionals_try ::
  "auth \<Rightarrow> fault \<Rightarrow> env \<Rightarrow> (js_error + professional_row list) \<times> env" where
  "getProfessionals_try a f e =
     (if authLoading a then
        (Inr [], console_log (''Aguardando autentica'' @ c_cedilla @ a_tilde @
                   ''o para carregar profissionais...'') e)
      else case user a of
        None \<Rightarrow>
          (Inr [], console_log (''Usu'' @ a_acute @ ''rio n'' @ a_tilde @
                     ''o autenticado para buscar profissionais'') e)
      | Some uid \<Rightarrow>
          (case q_select_professionals f uid
                  (console_log (''Buscando profissionais para usu'' @ a_acute @ ''rio:'') e) of
             (Rejected x, e1) \<Rightarrow> (Inl x, e1)
           | (Resolved r, e1) \<Rightarrow>
               (case error r of
                  Some x \<Rightarrow> (Inl x, console_error ''Erro ao buscar profissionais:'' (Some x) e1)
                | None \<Rightarrow>
                    (Inr (case data r of None \<Rightarrow> [] | Some rows \<Rightarrow> rows),
                     console_log ''Profissionais encontrados:'' e1))))"

definition getProfessionals ::
  "auth \<Rightarrow> fault \<Rightarrow> bool \<times> env \<Rightarrow> professional_row list \<times> bool \<times> env" where
  "getProfessionals a f se =
     (case getProfessionals_try a f (snd se) of
        (Inr rows, e1) \<Rightarrow> (rows, False, e1)
      | (Inl x, e1) \<Rightarrow>
          (let e2 = console_error ''Erro ao buscar profissionais:'' (Some x) e1;
               e3 = (if user a \<noteq> None
                     then show_toast (destructive ''Erro ao carregar profissionais''
                            (message_or x (nao_foi_possivel @ ''carregar a lista de profissionais''))) e2
                     else e2)
           in ([], False, e3)))"

definition getProfessionalById_try ::
  "auth \<Rightarrow> string \<Rightarrow> fault \<Rightarrow> env \<Rightarrow> (js_error + professional_row option) \<times> env" where
  "getProfessionalById_try a pid f e =
     (case user a of
        None \<Rightarrow> (Inl usuario_nao_autenticado, e)
      | Some uid \<Rightarrow>
          (case q_select_professional f pid uid e of
             (Rejected x, e1) \<Rightarrow> (Inl x, e1)
           | (Resolved r, e1) \<Rightarrow>
               (case error r of Some x \<Rightarrow> (Inl x, e1) | None \<Rightarrow> (Inr (data r), e1))))"

definition getProfessionalById ::
  "auth \<Rightarrow> string \<Rightarrow> fault \<Rightarrow> bool \<times> env \<Rightarrow> professional_row option \<times> bool \<times> env" where
  "getProfessionalById a pid f se =
     (case getProfessionalById_try a pid f (snd se) of
        (Inr d, e1) \<Rightarrow> (d, False, e1)
      | (Inl x, e1) \<Rightarrow>
          (None, False,
           show_toast (destructive ''Erro ao carregar profissional''
               (message_or x (nao_foi_possivel @ ''carregar os dados do profissional'')))
             (console_error ''Erro ao buscar profissional:'' (Some x) e1)))"

definition createProfessional_try ::
  "auth \<Rightarrow> string \<Rightarrow> professional_data \<Rightarrow> fault \<Rightarrow> env \<Rightarrow>
     (js_error + professional_row option) \<times> env" where
  "createProfessional_try a new_id d f e =
     (case user a of
        None \<Rightarrow> (Inl usuario_nao_autenticado, e)
      | Some uid \<Rightarrow>
          (case q_insert_professional f new_id d uid (console_log ''Criando profissional:'' e) of
             (Rejected x, e1) \<Rightarrow> (Inl x, e1)
           | (Resolved r, e1) \<Rightarrow>
               (case error r of
                  Some x \<Rightarrow>
                    (Inl x, console_error ''Erro do Supabase ao criar profissional:'' (Some x) e1)
                | None \<Rightarrow>
                    (Inr (data r),
                     show_toast \<lparr>title = ''Profissional cadastrado com sucesso!'',
                                 description = nome d @ '' foi adicionado ao sistema.'',
                                 variant = None\<rparr>
                       (console_log ''Profissional criado com sucesso:'' e1)))))"

definition createProfessional ::
  "auth \<Rightarrow> string \<Rightarrow> professional_data \<Rightarrow> fault \<Rightarrow> bool \<times> env \<Rightarrow>
     professional_row option \<times> bool \<times> env" where
  "createProfessional a new_id d f se =
     (case createProfessional_try a new_id d f (snd se) of
        (Inr r, e1) \<Rightarrow> (r, False, e1)
      | (Inl x, e1) \<Rightarrow>
          (None, False,
           show_toast (destructive ''Erro ao cadastrar profissional''
               (message_or x (nao_foi_possivel @ ''cadastrar o profissional'')))
             (console_error ''Erro ao criar profissional:'' (Some x) e1)))"

text \<open>
  In \<^verbatim>\<open>updateProfessional\<close> the success toast reads \<^verbatim>\<open>data.nome\<close>; with
  \<^verbatim>\<open>data\<close> null that access throws, and the \<^verbatim>\<open>catch\<close> block takes over.
\<close>

definition updateProfessional_try ::
  "auth \<Rightarrow> string \<Rightarrow> professional_patch \<Rightarrow> fault \<Rightarrow> env \<Rightarrow>
     (js_error + professional_row option) \<times> env" where
  "updateProfessional_try a pid p f e =
     (case user a of
        None \<Rightarrow> (Inl usuario_nao_autenticado, e)
      | Some uid \<Rightarrow>
          (case q_update_professional f p pid uid (console_log ''Atualizando profissional:'' e) of
             (Rejected x, e1) \<Rightarrow> (Inl x, e1)
           | (Resolved r, e1) \<Rightarrow>
               (case error r of
                  Some x \<Rightarrow>
                    (Inl x, console_error ''Erro do Supabase ao atualizar profissional:'' (Some x) e1)
                | None \<Rightarrow>
                    (let e2 = console_log ''Profissional atualizado com sucesso:'' e1
                     in case data r of
                          None \<Rightarrow> (Inl (Error ''Cannot read properties of null (reading nome)''), e2)
                        | Some row \<Rightarrow>
                            (Inr (Some row),
                             show_toast \<lparr>title = ''Profissional atualizado com sucesso!'',
                                         description = ''Os dados de '' @ nome row @ '' foram atualizados.'',
                                         variant = None\<rparr> e2)))))"

definition updateProfessional ::
  "auth \<Rightarrow> string \<Rightarrow> professional_patch \<Rightarrow> fault \<Rightarrow> bool \<times> env \<Rightarrow>
     professional_row option \<times> bool \<times> env" where
  "updateProfessional a pid p f se =
     (case updateProfessional_try a pid p f (snd se) of
        (Inr r, e1) \<Rightarrow> (r, False, e1)
      | (Inl x, e1) \<Rightarrow>
          (None, False,
           show_toast (destructive ''Erro ao atualizar profissional''
               (message_or x (nao_foi_possivel @ ''atualizar os dados do profissional'')))
             (console_error ''Erro ao atualizar profissional:'' (Some x) e1)))"

definition removed_toast :: toast where
  "removed_toast =
     \<lparr>title = ''Profissional removido com sucesso'',
      description = ''O profissional foi removido do sistema.'',
      variant = None\<rparr>"

definition deleteProfessional_try ::
  "auth \<Rightarrow> string \<Rightarrow> fault \<Rightarrow> env \<Rightarrow> (js_error + bool) \<times> env" where
  "deleteProfessional_try a pid f e =
     (case user a of
        None \<Rightarrow> (Inl usuario_nao_autenticado, e)
      | Some uid \<Rightarrow>
          (case q_delete_professional f pid uid (console_log ''Excluindo profissional:'' e) of
             (Rejected x, e1) \<Rightarrow> (Inl x, e1)
           | (Resolved r, e1) \<Rightarrow>
               (case error r of
                  Some x \<Rightarrow>
                    (Inl x, console_error ''Erro do Supabase ao excluir profissional:'' (Some x) e1)
                | None \<Rightarrow>
                    (Inr True,
                     show_toast removed_toast
                       (console_log (''Profissional exclu'' @ i_acute @ ''do com sucesso'') e1)))))"

definition deleteProfessional ::
  "auth \<Rightarrow> string \<Rightarrow> fault \<Rightarrow> bool \<times> env \<Rightarrow> bool \<times> bool \<times> env" where
  "deleteProfessional a pid f se =
     (case deleteProfessional_try a pid f (snd se) of
        (Inr b, e1) \<Rightarrow> (b, False, e1)
      | (Inl x, e1) \<Rightarrow>
          (False, False,
           show_toast (destructive ''Erro ao remover profissional''
               (message_or x (nao_foi_possivel @ ''remover o profissional'')))
             (console_error ''Erro ao excluir profissional:'' (Some x) e1)))"

subsection \<open>useTodayAppointments\<close>

record today_appointment =
  ta_id :: string
  ta_time :: string
  ta_patient :: string
  ta_doctor :: string
  ta_type :: string
  ta_status :: string

record today_state =
  today_appointments :: "today_appointment list"
  today_loading :: bool

definition useTodayAppointments_initial :: today_state where
  "useTodayAppointments_initial = \<lparr>today_appointments = [], today_loading = True\<rparr>"

text \<open>\<^verbatim>\<open>x || d\<close> on a string that may be null or undefined.\<close>

definition or_default :: "string option \<Rightarrow> string \<Rightarrow> string" where
  "or_default x d = (case x of None \<Rightarrow> d | Some s \<Rightarrow> if s = [] then d else s)"

text \<open>\<^verbatim>\<open>apt.patient?.nome\<close>\<close>

definition related_nome :: "related option \<Rightarrow> string option" where
  "related_nome r = (case r of None \<Rightarrow> None | Some p \<Rightarrow> rel_nome p)"

text \<open>
  \<open>fmt\<close> stands for \<^verbatim>\<open>new Date(s).toLocaleTimeString('pt-BR', ...)\<close>, the
  localized hour and minute of a stored timestamp.
\<close>

definition format_appointment :: "(string \<Rightarrow> string) \<Rightarrow> appointment_row \<Rightarrow> today_appointment" where
  "format_appointment fmt apt =
     \<lparr>ta_id = apt_id apt,
      ta_time = fmt (data_agendamento apt),
      ta_patient = or_default (related_nome (apt_patient apt))
                     (''Paciente n'' @ a_tilde @ ''o encontrado''),
      ta_doctor = or_default (related_nome (apt_professional apt))
                    (''Profissional n'' @ a_tilde @ ''o encontrado''),
      ta_type = or_default (apt_tipo apt) ''Consulta'',
      ta_status = or_default (apt_status apt) ''confirmado''\<rparr>"

text \<open>The \<^verbatim>\<open>try\<close> block; \<open>verbose\<close> is true in the second revision, which logs.\<close>

definition loadTodayAppointments_try ::
  "bool \<Rightarrow> (string \<Rightarrow> string) \<Rightarrow> int \<Rightarrow> string \<Rightarrow> fault \<Rightarrow> env \<Rightarrow>
     (js_error + today_appointment list) \<times> env" where
  "loadTodayAppointments_try verbose fmt now uid f e =
     (let e0 = (if verbose
                then console_log (''Carregando agendamentos de hoje para usu'' @ a_acute @ ''rio:'') e
                else e);
          today = hoje now
      in case q_select_appointments f uid today (today @ ''T23:59:59'') e0 of
           (Rejected x, e1) \<Rightarrow> (Inl x, e1)
         | (Resolved r, e1) \<Rightarrow>
             (case error r of
                Some x \<Rightarrow>
                  (Inl x, if verbose then console_error ''Erro ao buscar agendamentos:'' (Some x) e1
                          else e1)
              | None \<Rightarrow>
                  (Inr (case data r of None \<Rightarrow> [] | Some rows \<Rightarrow> map (format_appointment fmt) rows),
                   if verbose then console_log ''Agendamentos de hoje carregados:'' e1 else e1)))"

definition loadTodayAppointments_rev ::
  "bool \<Rightarrow> (string \<Rightarrow> string) \<Rightarrow> int \<Rightarrow> auth \<Rightarrow> fault \<Rightarrow> today_state \<times> env \<Rightarrow> today_state \<times> env" where
  "loadTodayAppointments_rev verbose fmt now a f se =
     (case user a of
        None \<Rightarrow>
          (fst se,
           if verbose
           then console_log (''Aguardando autentica'' @ c_cedilla @ a_tilde @
                  ''o para carregar agendamentos...'') (snd se)
           else snd se)
      | Some uid \<Rightarrow>
          if authLoading a then
            (fst se,
             if verbose
             then console_log (''Aguardando autentica'' @ c_cedilla @ a_tilde @
                    ''o para carregar agendamentos...'') (snd se)
             else snd se)
          else
            (case loadTodayAppointments_try verbose fmt now uid f (snd se) of
               (Inr xs, e1) \<Rightarrow> (\<lparr>today_appointments = xs, today_loading = False\<rparr>, e1)
             | (Inl x, e1) \<Rightarrow>
                 (\<lparr>today_appointments = [], today_loading = False\<rparr>,
                  console_error ''Erro ao carregar agendamentos de hoje:'' (Some x) e1)))"

text \<open>The first revision of the file, and the second.\<close>

definition loadTodayAppointments_1 ::
  "(string \<Rightarrow> string) \<Rightarrow> int \<Rightarrow> auth \<Rightarrow> fault \<Rightarrow> today_state \<times> env \<Rightarrow> today_state \<times> env" where
  "loadTodayAppointments_1 = loadTodayAppointments_rev False"

definition loadTodayAppointments ::
  "(string \<Rightarrow> string) \<Rightarrow> int \<Rightarrow> auth \<Rightarrow> fault \<Rightarrow> today_state \<times> env \<Rightarrow> today_state \<times> env" where
  "loadTodayAppointments = loadTodayAppointments_rev True"

text \<open>
  The effect that React runs when \<^verbatim>\<open>[user, authLoading]\<close> changes. The first
  revision only loads; the second also resets when nobody is signed in.
\<close>

definition useTodayAppointments_effect_1 ::
  "(string \<Rightarrow> string) \<Rightarrow> int \<Rightarrow> auth \<Rightarrow> fault \<Rightarrow> today_state \<times> env \<Rightarrow> today_state \<times> env" where
  "useTodayAppointments_effect_1 fmt now a f se =
     (if user a \<noteq> None \<and> \<not> authLoading a then loadTodayAppointments_1 fmt now a f se else se)"

definition useTodayAppointments_effect ::
  "(string \<Rightarrow> string) \<Rightarrow> int \<Rightarrow> auth \<Rightarrow> fault \<Rightarrow> today_state \<times> env \<Rightarrow> today_state \<times> env" where
  "useTodayAppointments_effect fmt now a f se =
     (if user a \<noteq> None \<and> \<not> authLoading a then
        loadTodayAppointments fmt now a f
          (fst se, console_log ''Iniciando carregamento de agendamentos de hoje...'' (snd se))
      else if \<not> authLoading a \<and> user a = None then
        ((fst se)\<lparr>today_loading := False, today_appointments := []\<rparr>, snd se)
      else se)"

subsection \<open>useStats\<close>

record dashboard_stats =
  pacientesCadastrados :: int
  agendamentosHoje :: int
  consultasMes :: int
  taxaOcupacao :: int
  limitePacientes :: int
  limiteAgendamentos :: int
  limiteConsultas :: int

record stats_state =
  stats :: dashboard_stats
  stats_loading :: bool

definition useStats_initial :: stats_state where
  "useStats_initial =
     \<lparr>stats = \<lparr>pacientesCadastrados = 0, agendamentosHoje = 0, consultasMes = 0,
                taxaOcupacao = 0, limitePacientes = 50, limiteAgendamentos = 10,
                limiteConsultas = 100\<rparr>,
      stats_loading = True\<rparr>"

text \<open>\<^verbatim>\<open>Math.round\<close> rounds to the nearest integer, halves upwards.\<close>

definition Math_round :: "rat \<Rightarrow> int" where
  "Math_round x = \<lfloor>x + 1 / 2\<rfloor>"

text \<open>\<^verbatim>\<open>count || 0\<close>\<close>

definition or_zero :: "nat option \<Rightarrow> int" where
  "or_zero c = (case c of None \<Rightarrow> 0 | Some n \<Rightarrow> int n)"

text \<open>\<^verbatim>\<open>agendamentosCount ? Math.round((agendamentosCount / 10) * 100) : 0\<close>\<close>

definition taxa_ocupacao :: "nat option \<Rightarrow> int" where
  "taxa_ocupacao c =
     (case c of
        None \<Rightarrow> 0
      | Some n \<Rightarrow> if n = 0 then 0 else Math_round ((of_nat n / 10) * 100))"

definition new_stats :: "nat option \<Rightarrow> nat option \<Rightarrow> nat option \<Rightarrow> dashboard_stats" where
  "new_stats pacientesCount agendamentosCount consultasCount =
     \<lparr>pacientesCadastrados = or_zero pacientesCount,
      agendamentosHoje = or_zero agendamentosCount,
      consultasMes = or_zero consultasCount,
      taxaOcupacao = min (taxa_ocupacao agendamentosCount) 100,
      limitePacientes = 50,
      limiteAgendamentos = 10,
      limiteConsultas = 100\<rparr>"

text \<open>
  The \<^verbatim>\<open>try\<close> block of \<^verbatim>\<open>loadStats\<close>: three awaited count queries, one after
  the other. The clock is read twice, at \<open>now\<close> for \<^verbatim>\<open>hoje\<close> and at \<open>now'\<close>
  for \<^verbatim>\<open>inicioMes\<close>; \<open>tz\<close> is the local zone. Only \<^verbatim>\<open>count\<close> is read from
  a response.
\<close>

definition loadStats_try ::
  "int \<Rightarrow> int \<Rightarrow> int \<Rightarrow> string \<Rightarrow> fault \<Rightarrow> fault \<Rightarrow> fault \<Rightarrow> env \<Rightarrow>
     (js_error + dashboard_stats) \<times> env" where
  "loadStats_try tz now now' uid f1 f2 f3 e =
     (case q_count_patients f1 uid e of
        (Rejected x, e1) \<Rightarrow> (Inl x, e1)
      | (Resolved r1, e1) \<Rightarrow>
          (let today = hoje now
           in case q_count_appointments f2 uid today (today @ ''T23:59:59'') e1 of
                (Rejected x, e2) \<Rightarrow> (Inl x, e2)
              | (Resolved r2, e2) \<Rightarrow>
                  (let inicioMes = setDate_1 tz now'
                   in case q_count_consultations f3 uid (toISOString inicioMes) e2 of
                        (Rejected x, e3) \<Rightarrow> (Inl x, e3)
                      | (Resolved r3, e3) \<Rightarrow>
                          (Inr (new_stats (count r1) (count r2) (count r3)), e3))))"

definition loadStats ::
  "int \<Rightarrow> int \<Rightarrow> int \<Rightarrow> auth \<Rightarrow> fault \<Rightarrow> fault \<Rightarrow> fault \<Rightarrow> stats_state \<times> env \<Rightarrow>
     stats_state \<times> env" where
  "loadStats tz now now' a f1 f2 f3 se =
     (case user a of
        None \<Rightarrow> se
      | Some uid \<Rightarrow>
          if authLoading a then se
          else
            (case loadStats_try tz now now' uid f1 f2 f3 (snd se) of
               (Inr st, e1) \<Rightarrow> (\<lparr>stats = st, stats_loading = False\<rparr>, e1)
             | (Inl x, e1) \<Rightarrow>
                 ((fst se)\<lparr>stats_loading := False\<rparr>,
                  console_error (''Erro ao carregar estat'' @ i_acute @ ''sticas:'') (Some x) e1)))"

definition useStats_effect ::
  "int \<Rightarrow> int \<Rightarrow> int \<Rightarrow> auth \<Rightarrow> fault \<Rightarrow> fault \<Rightarrow> fault \<Rightarrow> stats_state \<times> env \<Rightarrow>
     stats_state \<times> env" where
  "useStats_effect tz now now' a f1 f2 f3 se =
     (if user a \<noteq> None \<and> \<not> authLoading a then loadStats tz now now' a f1 f2 f3 se else se)"

subsection \<open>Auxiliary notions\<close>

text \<open>
  The steps of \<open>civil_from_days\<close> under names of their own: the year of the era
  for a day of the era, the first day of a year of the era, and the date for a
  year (counted from March) and a day of that year.
\<close>

definition yoe_of :: "int \<Rightarrow> int" where
  "yoe_of doe = (doe - doe div 1460 + doe div 36524 - doe div 146096) div 365"

definition year_start :: "int \<Rightarrow> int" where
  "year_start y = 365 * y + y div 4 - y div 100"

definition civil_of :: "int \<Rightarrow> int \<Rightarrow> int \<times> int \<times> int" where
  "civil_of y doy =
     (let mp = (5 * doy + 2) div 153;
          d = doy - (153 * mp + 2) div 5 + 1;
          m = (if mp < 10 then mp + 3 else mp - 9)
      in (if m \<le> 2 then y + 1 else y, m, d))"

text \<open>A query resolves when its promise is not rejected.\<close>

definition resolves :: "fault \<Rightarrow> bool" where
  "resolves f = (case f of Rejects x \<Rightarrow> False | _ \<Rightarrow> True)"

text \<open>The number of stored appointments of \<open>uid\<close> inside the window that \<^verbatim>\<open>loadStats\<close> asks for.\<close>

definition today_count :: "string \<Rightarrow> int \<Rightarrow> env \<Rightarrow> nat" where
  "today_count uid now e =
     length (filter (in_window uid (hoje now) (hoje now @ ''T23:59:59'')) (appointments (store e)))"

text \<open>The rows that \<^verbatim>\<open>loadTodayAppointments\<close> asks for at the instant \<open>now\<close>.\<close>

definition todays_rows :: "string \<Rightarrow> int \<Rightarrow> env \<Rightarrow> appointment_row list" where
  "todays_rows uid now e = fetch_appointments uid (hoje now) (hoje now @ ''T23:59:59'') (store e)"

subsection \<open>Sample data\<close>

definition empty_remote :: remote where
  "empty_remote = \<lparr>professionals = [], appointments = [], patients = [], consultations = []\<rparr>"

definition empty_env :: env where
  "empty_env = \<lparr>store = empty_remote, sent = [], console = [], toasts = []\<rparr>"

definition signed_out :: auth where
  "signed_out = \<lparr>user = None, authLoading = False\<rparr>"

definition signed_in :: "string \<Rightarrow> auth" where
  "signed_in uid = \<lparr>user = Some uid, authLoading = False\<rparr>"

text \<open>A stand-in for the time formatter: it shows the stored timestamp as it is.\<close>

definition raw_time :: "string \<Rightarrow> string" where
  "raw_time s = s"

definition dr_ana :: professional_data where
  "dr_ana =
     \<lparr>nome = ''Ana'', tipo = ''medico'', registro = ''CRM-1'', especialidade = ''Cardiologia'',
      telefone = ''555-0101'', email = ''ana@example.org'', horario_inicio = Some ''08:00'',
      horario_fim = None, dias_atendimento = None, observacoes = None, status = Some ''ativo''\<rparr>"

definition one_professional :: env where
  "one_professional =
     empty_env\<lparr>store := empty_remote\<lparr>professionals := [new_row dr_ana ''p1'' ''u1'']\<rparr>\<rparr>"

definition no_patch :: professional_patch where
  "no_patch =
     \<lparr>upd_id = None, upd_nome = None, upd_tipo = None, upd_registro = None,
      upd_especialidade = None, upd_telefone = None, upd_email = None,
      upd_horario_inicio = None, upd_horario_fim = None, upd_dias_atendimento = None,
      upd_observacoes = None, upd_status = None\<rparr>"

definition stale_stats :: stats_state where
  "stale_stats =
     \<lparr>stats = \<lparr>pacientesCadastrados = 7, agendamentosHoje = 3, consultasMes = 12,
                taxaOcupacao = 30, limitePacientes = 50, limiteAgendamentos = 10,
                limiteConsultas = 100\<rparr>,
      stats_loading = False\<rparr>"

definition march_consultation :: env where
  "march_consultation =
     empty_env\<lparr>store := empty_remote\<lparr>consultations :=
       [\<lparr>con_user_id = ''u1'', created_at = ''2024-03-01T08:00:00.000Z''\<rparr>]\<rparr>\<rparr>"

definition appointment_at :: "string \<Rightarrow> string \<Rightarrow> string \<Rightarrow> appointment_row" where
  "appointment_at i uid ts =
     \<lparr>apt_id = i, apt_user_id = uid, data_agendamento = ts, apt_tipo = None,
      apt_status = None, apt_patient = None, apt_professional = None\<rparr>"

definition busy_day :: env where
  "busy_day =
     empty_env\<lparr>store := empty_remote\<lparr>appointments :=
       replicate 15 (appointment_at ''a1'' ''u1'' ''2024-03-15T09:00:00'')\<rparr>\<rparr>"

definition three_appointments :: env where
  "three_appointments =
     empty_env\<lparr>store := empty_remote\<lparr>appointments :=
       [appointment_at ''a3'' ''u1'' ''2024-03-16T10:00:00'',
        appointment_at ''a2'' ''u1'' ''2024-03-15T23:59:59'',
        appointment_at ''a1'' ''u1'' ''2024-03-15T00:00:00'']\<rparr>\<rparr>"

definition change_id :: professional_patch where
  "change_id = no_patch\<lparr>upd_id := Some ''p2''\<rparr>"

definition rename :: professional_patch where
  "rename = no_patch\<lparr>upd_nome := Some ''Ana Lima''\<rparr>"

section \<open>Properties\<close>

lemmas env_ops = console_log_def console_error_def show_toast_def send_def

subsection \<open>Operations without a signed-in user\<close>

text \<open>
  C10. A manual refresh of today's appointments while the user is absent or
  authentication is still loading sends no query and leaves the hook's state (the
  appointment list and the loading flag) as it was. The second revision writes a
  console line and touches nothing else; the first revision changes nothing at all.
\<close>

theorem refresh_unauthenticated_is_noop:
  assumes "user a = None \<or> authLoading a"
  shows "fst (loadTodayAppointments fmt now a f (s, e)) = s
       \<and> sent (snd (loadTodayAppointments fmt now a f (s, e))) = sent e
       \<and> store (snd (loadTodayAppointments fmt now a f (s, e))) = store e
       \<and> toasts (snd (loadTodayAppointments fmt now a f (s, e))) = toasts e
       \<and> loadTodayAppointments_1 fmt now a f (s, e) = (s, e)"
  using assms
  by (auto simp: loadTodayAppointments_def loadTodayAppointments_1_def
        loadTodayAppointments_rev_def env_ops split: option.splits)

theorem refresh_unauthenticated_is_noop_witness:
  "(user signed_out = None \<or> authLoading signed_out)
   \<and> fst (loadTodayAppointments raw_time 0 signed_out No_fault
            (useTodayAppointments_initial, one_professional)) = useTodayAppointments_initial
   \<and> sent (snd (loadTodayAppointments raw_time 0 signed_out No_fault
            (useTodayAppointments_initial, one_professional))) = []
   \<and> loadTodayAppointments_1 raw_time 0 signed_out No_fault
        (useTodayAppointments_initial, one_professional)
      = (useTodayAppointments_initial, one_professional)"
  using refresh_unauthenticated_is_noop
          [of signed_out raw_time 0 No_fault useTodayAppointments_initial one_professional]
  by (simp add: signed_out_def one_professional_def empty_env_def)

text \<open>
  C5. With no user, \<^verbatim>\<open>getProfessionals\<close> returns the empty list,
  \<^verbatim>\<open>getProfessionalById\<close>, \<^verbatim>\<open>createProfessional\<close> and
  \<^verbatim>\<open>updateProfessional\<close> return null, \<^verbatim>\<open>deleteProfessional\<close> returns
  false; no request at all is sent and the store is unchanged.
\<close>

theorem unauthenticated_professionals_calls:
  assumes "user a = None"
  shows "fst (getProfessionals a f (l, e)) = []
       \<and> fst (getProfessionalById a pid f (l, e)) = None
       \<and> fst (createProfessional a new_id d f (l, e)) = None
       \<and> fst (updateProfessional a pid p f (l, e)) = None
       \<and> fst (deleteProfessional a pid f (l, e)) = False
       \<and> sent (snd (snd (getProfessionals a f (l, e)))) = sent e
       \<and> sent (snd (snd (getProfessionalById a pid f (l, e)))) = sent e
       \<and> sent (snd (snd (createProfessional a new_id d f (l, e)))) = sent e
       \<and> sent (snd (snd (updateProfessional a pid p f (l, e)))) = sent e
       \<and> sent (snd (snd (deleteProfessional a pid f (l, e)))) = sent e
       \<and> store (snd (snd (getProfessionals a f (l, e)))) = store e
       \<and> store (snd (snd (getProfessionalById a pid f (l, e)))) = store e
       \<and> store (snd (snd (createProfessional a new_id d f (l, e)))) = store e
       \<and> store (snd (snd (updateProfessional a pid p f (l, e)))) = store e
       \<and> store (snd (snd (deleteProfessional a pid f (l, e)))) = store e"
  using assms
  by (simp add: getProfessionals_def getProfessionals_try_def
        getProfessionalById_def getProfessionalById_try_def
        createProfessional_def createProfessional_try_def
        updateProfessional_def updateProfessional_try_def
        deleteProfessional_def deleteProfessional_try_def env_ops)

theorem unauthenticated_professionals_calls_witness:
  "user signed_out = None
   \<and> fst (getProfessionals signed_out No_fault (False, one_professional)) = []
   \<and> fst (getProfessionalById signed_out ''p1'' No_fault (False, one_professional)) = None
   \<and> fst (createProfessional signed_out ''p2'' dr_ana No_fault (False, one_professional)) = None
   \<and> fst (updateProfessional signed_out ''p1'' no_patch No_fault (False, one_professional)) = None
   \<and> fst (deleteProfessional signed_out ''p1'' No_fault (False, one_professional)) = False
   \<and> store (snd (snd (deleteProfessional signed_out ''p1'' No_fault (False, one_professional))))
      = store one_professional
   \<and> sent (snd (snd (deleteProfessional signed_out ''p1'' No_fault (False, one_professional)))) = []"
  using unauthenticated_professionals_calls
          [of signed_out No_fault False one_professional "''p1''" "''p2''" dr_ana no_patch]
  by (simp add: signed_out_def one_professional_def empty_env_def)

subsection \<open>Deleting a professional\<close>

text \<open>
  C9. For a signed-in user, when the store reports no error,
  \<^verbatim>\<open>deleteProfessional\<close> returns true and shows the success toast; this is so
  for every store, also one in which no row has the given id and owner, where
  nothing is removed.
\<close>

theorem delete_succeeds_without_match:
  assumes "user a = Some uid"
  shows "fst (deleteProfessional a pid No_fault (l, e)) = True
       \<and> toasts (snd (snd (deleteProfessional a pid No_fault (l, e)))) = toasts e @ [removed_toast]
       \<and> (filter (owned_by pid uid) (professionals (store e)) = [] \<longrightarrow>
            professionals (store (snd (snd (deleteProfessional a pid No_fault (l, e)))))
              = professionals (store e))"
  using assms
  by (auto simp: deleteProfessional_def deleteProfessional_try_def q_delete_professional_def
        env_ops Let_def filter_empty_conv)

theorem delete_succeeds_without_match_witness:
  "user (signed_in ''u1'') = Some ''u1''
   \<and> filter (owned_by ''p9'' ''u1'') (professionals (store one_professional)) = []
   \<and> fst (deleteProfessional (signed_in ''u1'') ''p9'' No_fault (False, one_professional)) = True
   \<and> toasts (snd (snd (deleteProfessional (signed_in ''u1'') ''p9'' No_fault
               (False, one_professional)))) = [removed_toast]
   \<and> professionals (store (snd (snd (deleteProfessional (signed_in ''u1'') ''p9'' No_fault
               (False, one_professional))))) = [new_row dr_ana ''p1'' ''u1'']"
  using delete_succeeds_without_match [of "signed_in ''u1''" "''u1''" "''p9''" False one_professional]
  by (simp add: signed_in_def one_professional_def empty_env_def empty_remote_def
        owned_by_def new_row_def)

subsection \<open>The signed-out transition\<close>

text \<open>
  When the effect runs with no user and authentication settled, the second revision
  of \<^verbatim>\<open>useTodayAppointments\<close> empties the list and clears its loading flag, and
  neither hook touches the environment: no request is sent. The effect of
  \<^verbatim>\<open>useStats\<close> has no such branch and returns the state it was given; so does
  the first revision of \<^verbatim>\<open>useTodayAppointments\<close>.
\<close>

lemma signed_out_effects:
  assumes "user a = None" "\<not> authLoading a"
  shows "useTodayAppointments_effect fmt now a f (s, e)
           = (\<lparr>today_appointments = [], today_loading = False\<rparr>, e)"
    and "useTodayAppointments_effect_1 fmt now a f (s, e) = (s, e)"
    and "useStats_effect tz now now' a f1 f2 f3 (t, e) = (t, e)"
  using assms
  by (simp_all add: useTodayAppointments_effect_def useTodayAppointments_effect_1_def
        useStats_effect_def)

text \<open>
  C4. The claim asks that the signed-out transition also sets the loading flag of
  \<^verbatim>\<open>useStats\<close> to false. Evaluated on the freshly mounted hook, whose flag
  starts as true, the effect leaves the flag true.
\<close>

theorem stats_loading_stays_true_when_signed_out:
  "stats_loading (fst (useStats_effect 0 0 0 signed_out No_fault No_fault No_fault
                        (useStats_initial, empty_env))) = True"
  by (simp add: useStats_effect_def signed_out_def useStats_initial_def)

subsection \<open>Failures while loading the statistics\<close>

text \<open>
  When one of the three awaited queries rejects, \<^verbatim>\<open>loadStats\<close> keeps the
  statistics it had and shows no toast; the \<^verbatim>\<open>catch\<close> block only writes to the
  console.
\<close>

lemma rejected_query_keeps_stats:
  assumes "f1 = Rejects x1 \<or> f2 = Rejects x2 \<or> f3 = Rejects x3"
  shows "stats (fst (loadStats tz now now' a f1 f2 f3 (s, e))) = stats s"
    and "toasts (snd (loadStats tz now now' a f1 f2 f3 (s, e))) = toasts e"
  using assms
  by (auto simp: loadStats_def loadStats_try_def q_count_patients_def q_count_appointments_def
        q_count_consultations_def respond_count_def env_ops Let_def
        split: option.splits fault.splits)

text \<open>
  When the patients query resolves with an error and the other two resolve, the
  statistics are replaced, the number of patients shown becomes 0, and nothing is
  written to the console.
\<close>

lemma error_response_replaces_stats:
  assumes "user a = Some uid" "\<not> authLoading a" "resolves f2" "resolves f3"
  shows "\<exists>c2 c3. stats (fst (loadStats tz now now' a (Query_error x) f2 f3 (s, e)))
                   = new_stats None c2 c3"
    and "pacientesCadastrados (stats (fst (loadStats tz now now' a (Query_error x) f2 f3 (s, e)))) = 0"
    and "console (snd (loadStats tz now now' a (Query_error x) f2 f3 (s, e))) = console e"
proof -
  obtain c2 c3 e' where
    r: "loadStats_try tz now now' uid (Query_error x) f2 f3 e = (Inr (new_stats None c2 c3), e')"
      and c: "console e' = console e"
    using assms(3,4)
    by (cases f2; cases f3)
       (simp_all add: loadStats_try_def q_count_patients_def q_count_appointments_def
          q_count_consultations_def respond_count_def env_ops resolves_def Let_def)
  have l: "loadStats tz now now' a (Query_error x) f2 f3 (s, e)
      = (\<lparr>stats = new_stats None c2 c3, stats_loading = False\<rparr>, e')"
    using assms(1,2) by (simp add: loadStats_def r)
  show "\<exists>c2 c3. stats (fst (loadStats tz now now' a (Query_error x) f2 f3 (s, e)))
                   = new_stats None c2 c3"
    unfolding l by auto
  show "pacientesCadastrados (stats (fst (loadStats tz now now' a (Query_error x) f2 f3 (s, e)))) = 0"
    unfolding l by (simp add: new_stats_def or_zero_def)
  show "console (snd (loadStats tz now now' a (Query_error x) f2 f3 (s, e))) = console e"
    unfolding l by (simp add: c)
qed

text \<open>
  C1. The claim covers every failing count response. A response that resolves
  with \<^verbatim>\<open>count: null\<close> and \<^verbatim>\<open>error\<close> set is not inspected:
  \<^verbatim>\<open>loadStats\<close> reads only \<^verbatim>\<open>count\<close>, treats null as 0 and overwrites the
  statistics, without any console line. Here the hook shows 7 patients, the
  patients query fails, and the statistics are reset to zeros.
\<close>

theorem error_response_overwrites_stats:
  "stats (fst (loadStats 0 1710513000000 1710513000000 (signed_in ''u1'')
                 (Query_error (Error ''timeout'')) No_fault No_fault (stale_stats, empty_env)))
     = stats useStats_initial
   \<and> stats (fst (loadStats 0 1710513000000 1710513000000 (signed_in ''u1'')
                 (Query_error (Error ''timeout'')) No_fault No_fault (stale_stats, empty_env)))
     \<noteq> stats stale_stats
   \<and> console (snd (loadStats 0 1710513000000 1710513000000 (signed_in ''u1'')
                 (Query_error (Error ''timeout'')) No_fault No_fault (stale_stats, empty_env))) = []"
  by (simp add: loadStats_def loadStats_try_def signed_in_def q_count_patients_def
        q_count_appointments_def q_count_consultations_def respond_count_def env_ops
        empty_env_def empty_remote_def new_stats_def or_zero_def taxa_ocupacao_def
        useStats_initial_def stale_stats_def Let_def)

subsection \<open>Consultations of the month\<close>

text \<open>
  \<^verbatim>\<open>setDate(1)\<close> keeps the time of day, so the lower bound of the consultations
  query is the first of the month at the current time of day.
\<close>

lemma setDate_1_keeps_time_within_day:
  "TimeWithinDay (LocalTime tz (setDate_1 tz t)) = TimeWithinDay (LocalTime tz t)"
proof -
  obtain y m d where c: "civil_from_days (Day (LocalTime tz t)) = (y, m, d)"
    by (cases "civil_from_days (Day (LocalTime tz t))")
  have "setDate_1 tz t = t - (d - 1) * msPerDay"
    by (simp add: setDate_1_def c)
  then have "LocalTime tz (setDate_1 tz t) = LocalTime tz t + (1 - d) * msPerDay"
    by (simp add: LocalTime_def algebra_simps)
  then show ?thesis
    by (simp only: TimeWithinDay_def mod_mult_self1)
qed

lemma inicioMes_keeps_time_of_day:
  "toISOString (setDate_1 0 1710513000000) = ''2024-03-01T14:30:00.000Z''"
  by code_simp

text \<open>
  C2. The claim counts every consultation created on day 1 of the current month.
  On 15 March 2024 at 14:30 UTC, a consultation of the user created on 1 March at
  08:00 is below the bound and is not counted.
\<close>

theorem first_day_consultation_not_counted:
  "consultasMes (stats (fst (loadStats 0 1710513000000 1710513000000 (signed_in ''u1'')
       No_fault No_fault No_fault (useStats_initial, march_consultation)))) = 0"
  by code_simp

subsection \<open>Occupancy rate\<close>

text \<open>JavaScript numbers are modelled by exact rationals; the counts are integers.\<close>

lemma floor_half: "\<lfloor>of_int k + (1 / 2 :: rat)\<rfloor> = k"
  by (rule floor_unique) simp_all

lemma Math_round_tenths: "Math_round ((of_nat n / 10) * 100) = 10 * int n"
proof -
  have "(of_nat n / 10) * 100 = (of_int (10 * int n) :: rat)" by simp
  then have "Math_round ((of_nat n / 10) * 100) = \<lfloor>of_int (10 * int n) + (1 / 2 :: rat)\<rfloor>"
    by (simp only: Math_round_def)
  then show ?thesis by (simp only: floor_half)
qed

text \<open>
  Rounding absorbs any error below one half: a double computation of
  \<^verbatim>\<open>(n / 10) * 100\<close> that is off from \<open>10 * n\<close> by less than that rounds to
  the same integer.
\<close>

lemma Math_round_near:
  assumes "\<bar>x - of_int k\<bar> < 1 / 2"
  shows "Math_round x = k"
  unfolding Math_round_def
  by (rule floor_unique) (use assms in linarith)+

lemma taxa_ocupacao_Some: "taxa_ocupacao (Some n) = Math_round (of_nat n / 10 * 100)"
proof (cases "n = 0")
  case True
  then show ?thesis using Math_round_tenths [of 0] by (simp add: taxa_ocupacao_def)
next
  case False
  then show ?thesis by (simp only: taxa_ocupacao_def option.case if_False)
qed

lemma loadStats_today_count:
  assumes "user a = Some uid" "\<not> authLoading a" "resolves f1" "resolves f3"
  shows "\<exists>c1 c3. stats (fst (loadStats tz now now' a f1 No_fault f3 (s, e)))
                   = new_stats c1 (Some (today_count uid now e)) c3"
  using assms
  by (cases f1; cases f3)
     (auto simp add: loadStats_def loadStats_try_def q_count_patients_def q_count_appointments_def
       q_count_consultations_def respond_count_def send_def today_count_def resolves_def Let_def)

text \<open>
  C6. After a refresh in which no query rejects and the count of today's
  appointments comes back as \<open>n\<close>, \<^verbatim>\<open>agendamentosHoje\<close> is \<open>n\<close> and
  \<^verbatim>\<open>taxaOcupacao\<close> is \<open>min 100 (round (n / 10 * 100))\<close>, hence at most 100.
\<close>

theorem occupancy_rate_clamped:
  assumes "user a = Some uid" "\<not> authLoading a" "resolves f1" "resolves f3"
  shows "agendamentosHoje (stats (fst (loadStats tz now now' a f1 No_fault f3 (s, e))))
           = int (today_count uid now e)
       \<and> taxaOcupacao (stats (fst (loadStats tz now now' a f1 No_fault f3 (s, e))))
           = min 100 (Math_round (of_nat (today_count uid now e) / 10 * 100))
       \<and> taxaOcupacao (stats (fst (loadStats tz now now' a f1 No_fault f3 (s, e)))) \<le> 100"
proof -
  obtain c1 c3 where st: "stats (fst (loadStats tz now now' a f1 No_fault f3 (s, e)))
      = new_stats c1 (Some (today_count uid now e)) c3"
    using loadStats_today_count [OF assms] by blast
  have "agendamentosHoje (new_stats c1 (Some (today_count uid now e)) c3)
      = int (today_count uid now e)"
    by (simp add: new_stats_def or_zero_def)
  moreover have "taxaOcupacao (new_stats c1 (Some (today_count uid now e)) c3)
      = min 100 (Math_round (of_nat (today_count uid now e) / 10 * 100))"
    by (simp only: new_stats_def dashboard_stats.simps taxa_ocupacao_Some min.commute)
  ultimately show ?thesis by (simp add: st)
qed

lemma busy_day_count: "today_count ''u1'' 1710513000000 busy_day = 15"
  by code_simp

lemma round_150: "Math_round (of_nat 15 / 10 * 100) = 150"
  using Math_round_tenths [of 15] by simp

text \<open>Fifteen appointments today: the rate is 100, not 150.\<close>

theorem occupancy_rate_clamped_witness:
  "user (signed_in ''u1'') = Some ''u1'' \<and> \<not> authLoading (signed_in ''u1'')
   \<and> resolves No_fault \<and> resolves (Query_error (Error ''timeout''))
   \<and> today_count ''u1'' 1710513000000 busy_day = 15
   \<and> agendamentosHoje (stats (fst (loadStats 0 1710513000000 1710513000000 (signed_in ''u1'')
         No_fault No_fault (Query_error (Error ''timeout'')) (useStats_initial, busy_day)))) = 15
   \<and> taxaOcupacao (stats (fst (loadStats 0 1710513000000 1710513000000 (signed_in ''u1'')
         No_fault No_fault (Query_error (Error ''timeout'')) (useStats_initial, busy_day)))) = 100"
proof -
  have h: "user (signed_in ''u1'') = Some ''u1''" "\<not> authLoading (signed_in ''u1'')"
    "resolves No_fault" "resolves (Query_error (Error ''timeout''))"
    by (simp_all add: signed_in_def resolves_def)
  show ?thesis
    using h occupancy_rate_clamped [OF h, of 0 1710513000000 1710513000000 useStats_initial busy_day]
    by (simp only: busy_day_count round_150) simp
qed

subsection \<open>The date called today\<close>

lemma digit_code: "(of_char (digit n) :: int) = 48 + n mod 10"
proof -
  have "0 \<le> n mod 10" "n mod 10 < 10" by simp_all
  then have "(48 + n mod 10) mod 256 = 48 + n mod 10" by simp
  then show ?thesis by (simp add: digit_def)
qed

lemma digit_not_T: "digit n \<noteq> CHR ''T''"
proof
  assume "digit n = CHR ''T''"
  then have "(of_char (digit n) :: int) = of_char (CHR ''T'')" by simp
  then have "48 + n mod 10 = 84" by (simp add: digit_code)
  moreover have "n mod 10 < 10" by simp
  ultimately show False by linarith
qed

lemma pad_no_T: "CHR ''T'' \<notin> set (pad k n)"
  by (induction k arbitrary: n) (auto simp: digit_not_T [symmetric])

lemma year_str_no_T: "CHR ''T'' \<notin> set (year_str y)"
  by (simp add: year_str_def pad_no_T)

lemma iso_date_no_T: "CHR ''T'' \<notin> set (iso_date c)"
  by (cases c) (simp add: iso_date_def year_str_no_T pad_no_T)

text \<open>Cutting the ISO string at its first \<^verbatim>\<open>T\<close> leaves the date of the UTC fields.\<close>

lemma hoje_utc_date: "hoje now = utc_date now"
proof -
  have "takeWhile (\<lambda>c. c \<noteq> CHR ''T'') (iso_date (civil_from_days (Day now)) @ ''T'' @ iso_time now)
        = iso_date (civil_from_days (Day now)) @ takeWhile (\<lambda>c. c \<noteq> CHR ''T'') (''T'' @ iso_time now)"
    by (rule takeWhile_append2) (use iso_date_no_T in metis)
  then show ?thesis
    by (simp add: hoje_def utc_date_def toISOString_def split_T_0_def)
qed

lemma late_evening_utc: "utc_date 1710550800000 = ''2024-03-16''"
  by code_simp

text \<open>
  C3, as stated, fails: at 2024-03-16T01:00:00Z a caller three hours west of UTC
  is still on 15 March, and the lower bound of the window is not that date.
\<close>

theorem today_is_not_the_local_date:
  "local_date (- 180) 1710550800000 = ''2024-03-15''
   \<and> sent (snd (loadTodayAppointments raw_time 1710550800000 (signed_in ''u1'') No_fault
              (useTodayAppointments_initial, empty_env)))
       = [Select_appointments ''u1'' ''2024-03-16'' ''2024-03-16T23:59:59'']
   \<and> sent (snd (loadTodayAppointments raw_time 1710550800000 (signed_in ''u1'') No_fault
              (useTodayAppointments_initial, empty_env)))
       \<noteq> [Select_appointments ''u1'' (local_date (- 180) 1710550800000)
            (local_date (- 180) 1710550800000 @ ''T23:59:59'')]"
  by code_simp

text \<open>
  C3, amended. For a signed-in refresh at the instant \<open>now\<close>, the lower bound of the
  appointment window is the calendar date of \<open>now\<close> in UTC, and the upper bound is
  that date followed by \<^verbatim>\<open>T23:59:59\<close>, in both revisions.
\<close>

theorem today_is_the_utc_date:
  assumes "user a = Some uid" "\<not> authLoading a"
  shows "sent (snd (loadTodayAppointments fmt now a f (s, e)))
           = sent e @ [Select_appointments uid (utc_date now) (utc_date now @ ''T23:59:59'')]
       \<and> sent (snd (loadTodayAppointments_1 fmt now a f (s, e)))
           = sent e @ [Select_appointments uid (utc_date now) (utc_date now @ ''T23:59:59'')]"
  using assms
  by (auto simp: loadTodayAppointments_def loadTodayAppointments_1_def loadTodayAppointments_rev_def
        loadTodayAppointments_try_def q_select_appointments_def respond_def env_ops
        hoje_utc_date Let_def split: fault.splits)

theorem today_is_the_utc_date_witness:
  "user (signed_in ''u1'') = Some ''u1'' \<and> \<not> authLoading (signed_in ''u1'')
   \<and> sent (snd (loadTodayAppointments raw_time 1710550800000 (signed_in ''u1'') No_fault
              (useTodayAppointments_initial, empty_env)))
      = [Select_appointments ''u1'' ''2024-03-16'' ''2024-03-16T23:59:59'']"
  using today_is_the_utc_date [of "signed_in ''u1''" "''u1''" raw_time 1710550800000 No_fault
              useTodayAppointments_initial empty_env]
  by (simp add: late_evening_utc signed_in_def empty_env_def)

subsection \<open>The calendar conversion\<close>

text \<open>
  A day of the era below 146096 splits into a century \<open>c\<close>, a four-year cycle
  \<open>q\<close> and a day \<open>t\<close> of the cycle; from these the year of the era and the day
  of the year are read off.
\<close>

lemma era_day_split:
  assumes "0 \<le> doe" "doe < 146096"
  shows "0 \<le> yoe_of doe \<and> yoe_of doe \<le> 399
       \<and> 0 \<le> doe - year_start (yoe_of doe) \<and> doe - year_start (yoe_of doe) \<le> 365"
proof -
  define c where "c = doe div 36524"
  define e where "e = doe mod 36524"
  define q where "q = e div 1461"
  define t where "t = e mod 1461"
  define b :: int where "b = (if 1460 \<le> 24 * c + q + t then 1 else 0)"
  define j where "j = (t - b) div 365"
  have e: "0 \<le> e" "e < 36524" by (simp_all add: e_def)
  have c: "0 \<le> c" "c \<le> 3" using assms by (simp_all add: c_def)
  have t: "0 \<le> t" "t \<le> 1460" by (simp_all add: t_def)
  have q: "0 \<le> q" "q \<le> 24" using e by (simp_all add: q_def)
  have e_eq: "e = 1461 * q + t" by (simp add: q_def t_def)
  have "doe = 36524 * c + e"
    by (simp add: c_def e_def)
  with e_eq have doe: "doe = 36524 * c + 1461 * q + t"
    by simp
  have b: "b = 0 \<or> b = 1" by (simp add: b_def)
  have tb: "0 \<le> t - b" "t - b \<le> 1459"
    using c q t e e_eq by (auto simp: b_def)
  have d1: "doe div 1460 = 25 * c + q + b"
    by (rule int_div_pos_eq [where r = "24 * c + q + t - 1460 * b"])
       (use doe c q t in \<open>auto simp: b_def\<close>)
  have d2: "doe div 36524 = c" by (simp add: c_def)
  have d3: "doe div 146096 = 0" using assms by simp
  have j: "0 \<le> j" "j \<le> 3" "365 * j \<le> t - b" "t - b < 365 * j + 365"
    using tb by (simp_all add: j_def)
  have yoe: "yoe_of doe = 100 * c + 4 * q + j"
    unfolding yoe_of_def d1 d2 d3
    by (rule int_div_pos_eq [where r = "t - b - 365 * j"]) (use doe j in auto)
  have y4: "(100 * c + 4 * q + j) div 4 = 25 * c + q"
    by (rule int_div_pos_eq [where r = j]) (use j in auto)
  have y100: "(100 * c + 4 * q + j) div 100 = c"
    by (rule int_div_pos_eq [where r = "4 * q + j"]) (use j q in auto)
  have ys: "year_start (100 * c + 4 * q + j) = 36524 * c + 1461 * q + 365 * j"
    by (simp add: year_start_def y4 y100)
  have "0 \<le> 100 * c + 4 * q + j" "100 * c + 4 * q + j \<le> 399"
    using c q j by linarith+
  moreover have "0 \<le> doe - (36524 * c + 1461 * q + 365 * j)"
    "doe - (36524 * c + 1461 * q + 365 * j) \<le> 365"
    using doe j b by linarith+
  ultimately show ?thesis
    by (simp add: yoe ys)
qed


lemma civil_from_days_eq:
  "civil_from_days n =
     civil_of (yoe_of ((n + 719468) mod 146097) + (n + 719468) div 146097 * 400)
       ((n + 719468) mod 146097 - year_start (yoe_of ((n + 719468) mod 146097)))"
  by (simp only: civil_from_days_def civil_of_def yoe_of_def year_start_def Let_def)

lemma last_day_of_era: "yoe_of 146096 = 399" "year_start 399 = 145731"
  by (simp_all add: yoe_of_def year_start_def)

lemma era_day_bounds:
  assumes "0 \<le> doe" "doe \<le> 146096"
  shows "0 \<le> yoe_of doe" "yoe_of doe \<le> 399"
    "0 \<le> doe - year_start (yoe_of doe)" "doe - year_start (yoe_of doe) \<le> 365"
proof -
  have "0 \<le> yoe_of doe \<and> yoe_of doe \<le> 399
       \<and> 0 \<le> doe - year_start (yoe_of doe) \<and> doe - year_start (yoe_of doe) \<le> 365"
  proof (cases "doe = 146096")
    case True
    then show ?thesis by (simp add: last_day_of_era)
  next
    case False
    with assms show ?thesis by (intro era_day_split) simp_all
  qed
  then show "0 \<le> yoe_of doe" "yoe_of doe \<le> 399"
    "0 \<le> doe - year_start (yoe_of doe)" "doe - year_start (yoe_of doe) \<le> 365"
    by simp_all
qed

lemma month_index:
  fixes doy :: int
  assumes "0 \<le> doy" "doy \<le> 365"
  shows "0 \<le> (5 * doy + 2) div 153" "(5 * doy + 2) div 153 \<le> 11"
proof -
  show "0 \<le> (5 * doy + 2) div 153"
    using assms by (simp add: pos_imp_zdiv_nonneg_iff)
  have "(5 * doy + 2) div 153 \<le> 1827 div 153"
    using assms by (intro zdiv_mono1) simp_all
  then show "(5 * doy + 2) div 153 \<le> 11" by simp
qed

lemma month_index_step:
  fixes doy :: int
  shows "(5 * doy + 2) div 153 \<le> (5 * (doy + 1) + 2) div 153"
    and "(5 * (doy + 1) + 2) div 153 \<le> (5 * doy + 2) div 153 + 1"
proof -
  show "(5 * doy + 2) div 153 \<le> (5 * (doy + 1) + 2) div 153"
    by (intro zdiv_mono1) simp_all
  have "(5 * (doy + 1) + 2) div 153 \<le> (5 * doy + 2 + 153) div 153"
    by (intro zdiv_mono1) simp_all
  then show "(5 * (doy + 1) + 2) div 153 \<le> (5 * doy + 2) div 153 + 1"
    by simp
qed

lemma civil_of_next_day:
  assumes "0 \<le> doy" "doy + 1 \<le> 365"
  shows "civil_of y doy < civil_of y (doy + 1)"
proof -
  define mp where "mp = (5 * doy + 2) div 153"
  define mp' where "mp' = (5 * (doy + 1) + 2) div 153"
  have mp: "0 \<le> mp" "mp \<le> mp'" "mp' \<le> mp + 1" "mp' \<le> 11"
    using month_index [of doy] month_index [of "doy + 1"] month_index_step [of doy] assms
    by (simp_all add: mp_def mp'_def)
  show ?thesis
    unfolding civil_of_def Let_def mp_def [symmetric] mp'_def [symmetric]
    using mp by (auto simp: less_prod_def)
qed

lemma civil_of_later_year:
  assumes "y < y'" "0 \<le> doy" "doy \<le> 365" "0 \<le> doy'" "doy' \<le> 365"
  shows "civil_of y doy < civil_of y' doy'"
proof -
  define mp where "mp = (5 * doy + 2) div 153"
  define mp' where "mp' = (5 * doy' + 2) div 153"
  have mp: "0 \<le> mp" "mp \<le> 11" "0 \<le> mp'" "mp' \<le> 11"
    using month_index [of doy] month_index [of doy'] assms
    by (simp_all add: mp_def mp'_def)
  show ?thesis
    unfolding civil_of_def Let_def mp_def [symmetric] mp'_def [symmetric]
    using mp assms(1) by (auto simp: less_prod_def)
qed

lemma civil_of_range:
  assumes "0 \<le> doy" "doy \<le> 365" "civil_of y doy = (y', m, d)"
  shows "1 \<le> m \<and> m \<le> 12 \<and> 1 \<le> d \<and> d \<le> 31 \<and> y \<le> y' \<and> y' \<le> y + 1"
proof -
  define x where "x = 5 * doy + 2"
  define mp where "mp = x div 153"
  define u where "u = (153 * mp + 2) div 5"
  have mp: "0 \<le> mp" "mp \<le> 11"
    using month_index [of doy] assms by (simp_all add: mp_def x_def)
  have "x = 153 * mp + x mod 153" "0 \<le> x mod 153" "x mod 153 < 153"
    by (simp_all add: mp_def)
  moreover have "153 * mp + 2 = 5 * u + (153 * mp + 2) mod 5"
    "0 \<le> (153 * mp + 2) mod 5" "(153 * mp + 2) mod 5 < 5"
    by (simp_all add: u_def)
  ultimately have d: "0 \<le> doy - u" "doy - u \<le> 30"
    unfolding x_def by linarith+
  from assms(3) have "m = (if mp < 10 then mp + 3 else mp - 9)" "d = doy - u + 1"
    "y' = (if (if mp < 10 then mp + 3 else mp - 9) \<le> 2 then y + 1 else y)"
    unfolding civil_of_def Let_def x_def [symmetric] mp_def [symmetric] u_def [symmetric]
    by auto
  with mp d show ?thesis by auto
qed


lemma yoe_step:
  assumes "0 \<le> a" "a < 146096"
  shows "yoe_of a \<le> yoe_of (a + 1)"
proof (cases "a = 146095")
  case True
  then show ?thesis by (simp add: yoe_of_def)
next
  case False
  with assms have "a + 1 < 146096" by simp
  with assms have z: "a div 146096 = 0" "(a + 1) div 146096 = 0" by simp_all
  have "(a + 1) div 1460 \<le> (a + 1460) div 1460"
    by (intro zdiv_mono1) simp_all
  then have "(a + 1) div 1460 \<le> a div 1460 + 1" by simp
  moreover have "a div 36524 \<le> (a + 1) div 36524"
    by (intro zdiv_mono1) simp_all
  ultimately have "a - a div 1460 + a div 36524 - a div 146096
      \<le> (a + 1) - (a + 1) div 1460 + (a + 1) div 36524 - (a + 1) div 146096"
    using z by linarith
  then show ?thesis unfolding yoe_of_def by (rule zdiv_mono1) simp
qed

text \<open>Each day has a later date than the day before.\<close>

lemma civil_from_days_step: "civil_from_days n < civil_from_days (n + 1)"
proof -
  define z where "z = n + 719468"
  define era where "era = z div 146097"
  define doe where "doe = z mod 146097"
  have doe: "0 \<le> doe" "doe \<le> 146096" by (simp_all add: doe_def)
  have z: "z = 146097 * era + doe" by (simp add: era_def doe_def)
  have c: "civil_from_days n = civil_of (yoe_of doe + era * 400) (doe - year_start (yoe_of doe))"
    by (simp only: civil_from_days_eq z_def era_def doe_def)
  have n1: "n + 1 + 719468 = z + 1" by (simp add: z_def)
  show ?thesis
  proof (cases "doe = 146096")
    case True
    have "(z + 1) div 146097 = era + 1"
      by (rule int_div_pos_eq [where r = 0]) (use z True in auto)
    moreover have "(z + 1) mod 146097 = 0"
      by (rule int_mod_pos_eq [where q = "era + 1"]) (use z True in auto)
    ultimately have c': "civil_from_days (n + 1) = civil_of ((era + 1) * 400) 0"
      by (simp only: civil_from_days_eq n1) (simp add: yoe_of_def year_start_def)
    have "civil_of (399 + era * 400) 365 < civil_of ((era + 1) * 400) 0"
      by (rule civil_of_later_year) simp_all
    then show ?thesis by (simp add: c c' True last_day_of_era)
  next
    case False
    with doe have lt: "doe < 146096" by simp
    have "(z + 1) div 146097 = era"
      by (rule int_div_pos_eq [where r = "doe + 1"]) (use z doe lt in auto)
    moreover have "(z + 1) mod 146097 = doe + 1"
      by (rule int_mod_pos_eq [where q = era]) (use z doe lt in auto)
    ultimately have c': "civil_from_days (n + 1)
        = civil_of (yoe_of (doe + 1) + era * 400) (doe + 1 - year_start (yoe_of (doe + 1)))"
      by (simp only: civil_from_days_eq n1)
    have b: "0 \<le> doe - year_start (yoe_of doe)" "doe - year_start (yoe_of doe) \<le> 365"
      using era_day_bounds [of doe] doe by simp_all
    have b': "0 \<le> doe + 1 - year_start (yoe_of (doe + 1))"
      "doe + 1 - year_start (yoe_of (doe + 1)) \<le> 365"
      using era_day_bounds [of "doe + 1"] doe lt by simp_all
    show ?thesis
    proof (cases "yoe_of (doe + 1) = yoe_of doe")
      case True
      have "doe - year_start (yoe_of doe) + 1 = doe + 1 - year_start (yoe_of doe)"
        by simp
      moreover have "civil_of (yoe_of doe + era * 400) (doe - year_start (yoe_of doe))
          < civil_of (yoe_of doe + era * 400) (doe - year_start (yoe_of doe) + 1)"
        using b b' True by (intro civil_of_next_day) simp_all
      ultimately have "civil_of (yoe_of doe + era * 400) (doe - year_start (yoe_of doe))
          < civil_of (yoe_of doe + era * 400) (doe + 1 - year_start (yoe_of doe))"
        by (simp only:)
      then show ?thesis by (simp only: c c' True)
    next
      case False
      with yoe_step [OF doe(1) lt] have "yoe_of doe < yoe_of (doe + 1)" by simp
      then have "civil_of (yoe_of doe + era * 400) (doe - year_start (yoe_of doe))
          < civil_of (yoe_of (doe + 1) + era * 400) (doe + 1 - year_start (yoe_of (doe + 1)))"
        using b b' by (intro civil_of_later_year) simp_all
      then show ?thesis by (simp only: c c')
    qed
  qed
qed

lemma civil_from_days_mono_nat: "civil_from_days n \<le> civil_from_days (n + int k)"
proof (induction k)
  case 0
  then show ?case by simp
next
  case (Suc k)
  have "civil_from_days (n + int k) < civil_from_days (n + int k + 1)"
    by (rule civil_from_days_step)
  with Suc show ?case by (simp add: algebra_simps)
qed

lemma civil_from_days_mono:
  assumes "n \<le> n'"
  shows "civil_from_days n \<le> civil_from_days n'"
  using civil_from_days_mono_nat [of n "nat (n' - n)"] assms by simp

lemma civil_from_days_range:
  assumes "civil_from_days n = (y, m, d)"
  shows "1 \<le> m \<and> m \<le> 12 \<and> 1 \<le> d \<and> d \<le> 31"
proof -
  define doe where "doe = (n + 719468) mod 146097"
  have doe: "0 \<le> doe" "doe \<le> 146096" by (simp_all add: doe_def)
  have "civil_of (yoe_of doe + (n + 719468) div 146097 * 400) (doe - year_start (yoe_of doe))
      = (y, m, d)"
    using assms by (simp only: civil_from_days_eq doe_def)
  with era_day_bounds [OF doe] civil_of_range show ?thesis by blast
qed

lemma epoch_day: "civil_from_days 0 = (1970, 1, 1)"
  by code_simp

lemma last_four_digit_day: "civil_from_days 2932896 = (9999, 12, 31)"
  by code_simp

lemma civil_from_days_year:
  assumes "0 \<le> n" "n \<le> 2932896" "civil_from_days n = (y, m, d)"
  shows "1970 \<le> y \<and> y \<le> 9999"
proof -
  have "(1970, 1, 1) \<le> (y, m, d)" "(y, m, d) \<le> (9999, 12, 31)"
    using civil_from_days_mono [OF assms(1)] civil_from_days_mono [OF assms(2)]
    by (simp_all only: epoch_day last_four_digit_day assms(3))
  then show ?thesis by (auto simp: less_eq_prod_def)
qed


subsection \<open>String order of dates\<close>

lemma char_less_int: "c < c' \<longleftrightarrow> (of_char c :: int) < of_char c'"
proof -
  have "(of_char c :: int) < of_char c' \<longleftrightarrow> int (of_char c) < int (of_char c')"
    by (simp only: of_nat_of_char)
  also have "\<dots> \<longleftrightarrow> (of_char c :: nat) < of_char c'"
    by (rule of_nat_less_iff)
  also have "\<dots> \<longleftrightarrow> c < c'"
    by (simp only: less_char_def)
  finally show ?thesis by simp
qed

lemma digit_less: "digit a < digit b \<longleftrightarrow> a mod 10 < b mod 10"
  by (simp add: char_less_int digit_code)

lemma length_pad: "length (pad k n) = k"
  by (induction k arbitrary: n) simp_all

lemma append_less_same: "xs @ ys < xs @ zs \<longleftrightarrow> ys < zs" for xs :: "'a::linorder list"
  by (induction xs) simp_all

lemma append_le_same: "xs @ ys \<le> xs @ zs \<longleftrightarrow> ys \<le> zs" for xs :: "'a::linorder list"
  by (induction xs) simp_all

lemma less_append_same_length:
  fixes xs ys :: "'a::linorder list"
  assumes "length xs = length ys" "xs < ys"
  shows "xs @ a < ys @ b"
  using assms by (induction xs ys rule: list_induct2) auto

lemma pad_less:
  assumes "0 \<le> m" "m < n" "n < 10 ^ k"
  shows "pad k m < pad k n"
  using assms
proof (induction k arbitrary: m n)
  case 0
  then show ?case by simp
next
  case (Suc k)
  have le: "m div 10 \<le> n div 10" using Suc.prems by (intro zdiv_mono1) simp_all
  show ?case
  proof (cases "m div 10 = n div 10")
    case True
    have "m = 10 * (m div 10) + m mod 10" "n = 10 * (n div 10) + n mod 10" by simp_all
    with True Suc.prems(2) have "m mod 10 < n mod 10" by linarith
    then show ?thesis by (simp add: True append_less_same digit_less)
  next
    case False
    with le have "m div 10 < n div 10" by simp
    moreover have "0 \<le> m div 10" using Suc.prems by (simp add: pos_imp_zdiv_nonneg_iff)
    moreover have "n div 10 < 10 ^ k"
    proof -
      have "n = 10 * (n div 10) + n mod 10" "0 \<le> n mod 10" by simp_all
      with Suc.prems(3) show ?thesis by simp
    qed
    ultimately have "pad k (m div 10) < pad k (n div 10)" by (intro Suc.IH)
    then show ?thesis by (simp add: less_append_same_length length_pad)
  qed
qed

lemma length_iso_date:
  assumes "0 \<le> y" "y \<le> 9999"
  shows "length (iso_date (y, m, d)) = 10"
  using assms by (simp add: iso_date_def year_str_def length_pad)

lemma iso_date_less:
  assumes "(y, m, d) < (y', m', d')"
    and "0 \<le> y" "y' \<le> 9999" "0 \<le> m" "m' < 100" "0 \<le> d" "d' < 100"
  shows "iso_date (y, m, d) < iso_date (y', m', d')"
proof -
  from assms(1) have le: "y \<le> y'" by (auto simp: less_prod_def)
  with assms have ys: "year_str y = pad 4 y" "year_str y' = pad 4 y'"
    by (simp_all add: year_str_def)
  have "y < y' \<or> y = y' \<and> (m < m' \<or> m = m' \<and> d < d')"
    using assms(1) by (auto simp: less_prod_def)
  then consider "y < y'" | "y = y'" "m < m'" | "y = y'" "m = m'" "d < d'"
    by blast
  then show ?thesis
  proof cases
    case 1
    with assms have "pad 4 y < pad 4 y'" by (intro pad_less) simp_all
    then show ?thesis
      unfolding iso_date_def prod.case ys
      by (intro less_append_same_length) (simp_all add: length_pad)
  next
    case 2
    with assms have "pad 2 m < pad 2 m'" by (intro pad_less) simp_all
    then have "pad 2 m @ ''-'' @ pad 2 d < pad 2 m' @ ''-'' @ pad 2 d'"
      by (intro less_append_same_length) (simp_all add: length_pad)
    then show ?thesis
      unfolding iso_date_def prod.case ys 2
      by (simp only: append_less_same Cons_less_Cons append_Cons append_Nil) simp
  next
    case 3
    with assms have "pad 2 d < pad 2 d'" by (intro pad_less) simp_all
    then show ?thesis
      unfolding iso_date_def prod.case ys 3
      by (simp only: append_less_same Cons_less_Cons append_Cons append_Nil) simp
  qed
qed

lemma Day_next: "Day (now + msPerDay) = Day now + 1"
  by (simp add: Day_def msPerDay_def)

lemma next_day_later:
  assumes "0 \<le> now" "now < 253402214400000"
  shows "utc_date now < utc_date (now + msPerDay)"
    and "length (utc_date now) = length (utc_date (now + msPerDay))"
proof -
  obtain y m d where c: "civil_from_days (Day now) = (y, m, d)" by (cases "civil_from_days (Day now)")
  obtain y' m' d' where c': "civil_from_days (Day now + 1) = (y', m', d')"
    by (cases "civil_from_days (Day now + 1)")
  have "0 \<le> Day now" using assms by (simp add: Day_def msPerDay_def pos_imp_zdiv_nonneg_iff)
  moreover have "Day now < 2932896"
  proof -
    have "now = 86400000 * (now div 86400000) + now mod 86400000" "0 \<le> now mod 86400000"
      by simp_all
    with assms(2) show ?thesis unfolding Day_def msPerDay_def by linarith
  qed
  ultimately have n: "0 \<le> Day now" "Day now \<le> 2932896" "0 \<le> Day now + 1" "Day now + 1 \<le> 2932896"
    by simp_all
  have y: "1970 \<le> y" "y \<le> 9999" "1970 \<le> y'" "y' \<le> 9999"
    using civil_from_days_year [OF n(1,2) c] civil_from_days_year [OF n(3,4) c'] by simp_all
  have r: "1 \<le> m" "m \<le> 12" "1 \<le> d" "d \<le> 31" "1 \<le> m'" "m' \<le> 12" "1 \<le> d'" "d' \<le> 31"
    using civil_from_days_range [OF c] civil_from_days_range [OF c'] by simp_all
  have "(y, m, d) < (y', m', d')"
    using civil_from_days_step [of "Day now"] by (simp only: c c')
  then have "iso_date (y, m, d) < iso_date (y', m', d')"
    using y r by (intro iso_date_less) simp_all
  then show "utc_date now < utc_date (now + msPerDay)"
    by (simp only: utc_date_def Day_next c c')
  show "length (utc_date now) = length (utc_date (now + msPerDay))"
    using y by (simp only: utc_date_def Day_next c c') (simp add: length_iso_date)
qed


subsection \<open>The window of today's appointments\<close>

lemma set_todays_rows:
  "set (todays_rows uid now e)
     = {r \<in> set (appointments (store e)). in_window uid (hoje now) (hoje now @ ''T23:59:59'') r}"
  by (simp add: todays_rows_def fetch_appointments_def)

lemma loaded_todays_rows:
  assumes "user a = Some uid" "\<not> authLoading a"
  shows "today_appointments (fst (loadTodayAppointments fmt now a No_fault (s, e)))
           = map (format_appointment fmt) (todays_rows uid now e)"
    and "today_appointments (fst (loadTodayAppointments_1 fmt now a No_fault (s, e)))
           = map (format_appointment fmt) (todays_rows uid now e)"
  using assms
  by (simp_all add: loadTodayAppointments_def loadTodayAppointments_1_def
        loadTodayAppointments_rev_def loadTodayAppointments_try_def q_select_appointments_def
        respond_def env_ops todays_rows_def Let_def)

lemma end_of_day_outside: "\<not> d @ ''T23:59:59'' @ z < d @ ''T23:59:59''"
proof -
  have "\<not> (d @ ''T23:59:59'') @ z < (d @ ''T23:59:59'') @ []"
    by (simp only: append_less_same) simp
  then show ?thesis by simp
qed

lemma start_of_day_inside: "d \<le> d @ ''T00:00:00'' @ z" "d @ ''T00:00:00'' @ z < d @ ''T23:59:59''"
proof -
  have "d @ [] \<le> d @ ''T00:00:00'' @ z" by (simp only: append_le_same) simp
  then show "d \<le> d @ ''T00:00:00'' @ z" by simp
  show "d @ ''T00:00:00'' @ z < d @ ''T23:59:59''"
    by (simp only: append_less_same) simp
qed

lemma later_date_outside:
  fixes d d' :: string
  assumes "d < d'" "length d = length d'"
  shows "\<not> d' @ z < d @ w"
proof -
  have "d @ w < d' @ z" using assms by (intro less_append_same_length) simp_all
  then show ?thesis by simp
qed

text \<open>
  C7. For a signed-in refresh whose query succeeds, the list shown is the formatted
  rows of the window \<open>[hoje, hoje + T23:59:59)\<close>, compared as strings. Of the
  user's stored rows, one stamped today at 23:59:59 (whatever follows the seconds)
  is not among them, one stamped today at 00:00:00 is, and one stamped with the
  date of the next day is not. The instant is taken between 1970 and the last day
  but one of year 9999, where the year has four digits.
\<close>

theorem today_window_half_open:
  assumes "user a = Some uid" "\<not> authLoading a"
    and "r \<in> set (appointments (store e))" "apt_user_id r = uid"
    and "0 \<le> now" "now < 253402214400000"
  shows "today_appointments (fst (loadTodayAppointments fmt now a No_fault (s, e)))
           = map (format_appointment fmt) (todays_rows uid now e)
       \<and> today_appointments (fst (loadTodayAppointments_1 fmt now a No_fault (s, e)))
           = map (format_appointment fmt) (todays_rows uid now e)
       \<and> (data_agendamento r = hoje now @ ''T23:59:59'' @ z \<longrightarrow> r \<notin> set (todays_rows uid now e))
       \<and> (data_agendamento r = hoje now @ ''T00:00:00'' @ z \<longrightarrow> r \<in> set (todays_rows uid now e))
       \<and> (data_agendamento r = hoje (now + msPerDay) @ z \<longrightarrow> r \<notin> set (todays_rows uid now e))"
proof -
  have "\<not> hoje (now + msPerDay) @ z < hoje now @ ''T23:59:59''"
    using next_day_later [OF assms(5,6)] unfolding hoje_utc_date by (intro later_date_outside)
  then show ?thesis
    using assms(3,4) loaded_todays_rows [OF assms(1,2)] end_of_day_outside start_of_day_inside
    by (simp add: set_todays_rows in_window_def)
qed

lemma march_15: "hoje 1710513000000 = ''2024-03-15''" "hoje (1710513000000 + msPerDay) = ''2024-03-16''"
  by code_simp+


theorem today_window_half_open_witness:
  "user (signed_in ''u1'') = Some ''u1'' \<and> \<not> authLoading (signed_in ''u1'')
   \<and> (0::int) \<le> 1710513000000 \<and> (1710513000000::int) < 253402214400000
   \<and> set (appointments (store three_appointments))
       = {appointment_at ''a3'' ''u1'' ''2024-03-16T10:00:00'',
          appointment_at ''a2'' ''u1'' ''2024-03-15T23:59:59'',
          appointment_at ''a1'' ''u1'' ''2024-03-15T00:00:00''}
   \<and> today_appointments (fst (loadTodayAppointments raw_time 1710513000000 (signed_in ''u1'')
          No_fault (useTodayAppointments_initial, three_appointments)))
       = map (format_appointment raw_time) (todays_rows ''u1'' 1710513000000 three_appointments)
   \<and> appointment_at ''a2'' ''u1'' ''2024-03-15T23:59:59''
       \<notin> set (todays_rows ''u1'' 1710513000000 three_appointments)
   \<and> appointment_at ''a1'' ''u1'' ''2024-03-15T00:00:00''
       \<in> set (todays_rows ''u1'' 1710513000000 three_appointments)
   \<and> appointment_at ''a3'' ''u1'' ''2024-03-16T10:00:00''
       \<notin> set (todays_rows ''u1'' 1710513000000 three_appointments)"
proof -
  have h: "user (signed_in ''u1'') = Some ''u1''" "\<not> authLoading (signed_in ''u1'')"
    by (simp_all add: signed_in_def)
  have rows: "appointments (store three_appointments)
       = [appointment_at ''a3'' ''u1'' ''2024-03-16T10:00:00'',
          appointment_at ''a2'' ''u1'' ''2024-03-15T23:59:59'',
          appointment_at ''a1'' ''u1'' ''2024-03-15T00:00:00'']"
    by (simp add: three_appointments_def empty_env_def)
  have r: "appointment_at ''a2'' ''u1'' ''2024-03-15T23:59:59''
        \<in> set (appointments (store three_appointments))"
      "appointment_at ''a1'' ''u1'' ''2024-03-15T00:00:00''
        \<in> set (appointments (store three_appointments))"
      "appointment_at ''a3'' ''u1'' ''2024-03-16T10:00:00''
        \<in> set (appointments (store three_appointments))"
    by (simp_all add: rows)
  have u: "apt_user_id (appointment_at i ''u1'' ts) = ''u1''" for i ts
    by (simp add: appointment_at_def)
  have n: "(0::int) \<le> 1710513000000" "(1710513000000::int) < 253402214400000"
    by simp_all
  show ?thesis
    using h n rows
      today_window_half_open [OF h r(1) u n, of raw_time useTodayAppointments_initial "[]"]
      today_window_half_open [OF h r(2) u n, of raw_time useTodayAppointments_initial "[]"]
      today_window_half_open [OF h r(3) u n, of raw_time useTodayAppointments_initial "''T10:00:00''"]
    by (simp add: march_15 appointment_at_def)
qed

subsection \<open>Update followed by a read\<close>

lemma apply_patch_keeps_key:
  assumes "upd_id p = None \<or> upd_id p = Some pid" "owned_by pid uid r"
  shows "owned_by pid uid (apply_patch p r)"
  using assms by (auto simp: owned_by_def apply_patch_def)

lemma filter_patched:
  assumes "upd_id p = None \<or> upd_id p = Some pid"
  shows "filter (owned_by pid uid)
           (map (\<lambda>r. if owned_by pid uid r then apply_patch p r else r) rows)
         = map (apply_patch p) (filter (owned_by pid uid) rows)"
  using assms by (induction rows) (simp_all add: apply_patch_keeps_key)

text \<open>A successful update had no fault, matched exactly one row and patched it.\<close>

lemma update_success:
  assumes "user a = Some uid" "fst (updateProfessional a pid p f (l, e)) = Some r'"
  shows "f = No_fault \<and>
         (\<exists>r. filter (owned_by pid uid) (professionals (store e)) = [r] \<and> r' = apply_patch p r
            \<and> professionals (store (snd (snd (updateProfessional a pid p f (l, e)))))
               = map (\<lambda>r. if owned_by pid uid r then apply_patch p r else r)
                   (professionals (store e)))"
  using assms
  by (cases f; cases "filter (owned_by pid uid) (professionals (store e))")
     (auto simp: updateProfessional_def updateProfessional_try_def q_update_professional_def
        respond_def single_def env_ops Let_def split: list.splits)

lemma getById_unique:
  assumes "user a = Some uid" "filter (owned_by pid uid) (professionals (store e)) = [r]"
  shows "fst (getProfessionalById a pid No_fault (l, e)) = Some r"
  using assms
  by (simp add: getProfessionalById_def getProfessionalById_try_def q_select_professional_def
        respond_def single_def env_ops)

text \<open>What a patch does to each field: a field present in the patch is replaced, an absent one is kept.\<close>

lemma apply_patch_fields:
  "prof_id (apply_patch p r) = (case upd_id p of None \<Rightarrow> prof_id r | Some v \<Rightarrow> v)"
  "nome (apply_patch p r) = (case upd_nome p of None \<Rightarrow> nome r | Some v \<Rightarrow> v)"
  "tipo (apply_patch p r) = (case upd_tipo p of None \<Rightarrow> tipo r | Some v \<Rightarrow> v)"
  "registro (apply_patch p r) = (case upd_registro p of None \<Rightarrow> registro r | Some v \<Rightarrow> v)"
  "especialidade (apply_patch p r)
     = (case upd_especialidade p of None \<Rightarrow> especialidade r | Some v \<Rightarrow> v)"
  "telefone (apply_patch p r) = (case upd_telefone p of None \<Rightarrow> telefone r | Some v \<Rightarrow> v)"
  "email (apply_patch p r) = (case upd_email p of None \<Rightarrow> email r | Some v \<Rightarrow> v)"
  "horario_inicio (apply_patch p r)
     = (case upd_horario_inicio p of None \<Rightarrow> horario_inicio r | Some v \<Rightarrow> Some v)"
  "horario_fim (apply_patch p r)
     = (case upd_horario_fim p of None \<Rightarrow> horario_fim r | Some v \<Rightarrow> Some v)"
  "dias_atendimento (apply_patch p r)
     = (case upd_dias_atendimento p of None \<Rightarrow> dias_atendimento r | Some v \<Rightarrow> Some v)"
  "observacoes (apply_patch p r)
     = (case upd_observacoes p of None \<Rightarrow> observacoes r | Some v \<Rightarrow> Some v)"
  "status (apply_patch p r) = (case upd_status p of None \<Rightarrow> status r | Some v \<Rightarrow> Some v)"
  "user_id (apply_patch p r) = user_id r"
  by (simp_all add: apply_patch_def)

text \<open>
  C8, as stated, fails for the field \<^verbatim>\<open>id\<close>, which \<^verbatim>\<open>Partial<Professional>\<close>
  admits: the update succeeds and moves the row to the new id, and reading the id
  that was updated then finds no row and returns null.
\<close>

theorem update_of_id_then_read_is_null:
  "fst (updateProfessional (signed_in ''u1'') ''p1'' change_id No_fault (False, one_professional))
     = Some (new_row dr_ana ''p2'' ''u1'')
   \<and> fst (getProfessionalById (signed_in ''u1'') ''p1'' No_fault
           (snd (updateProfessional (signed_in ''u1'') ''p1'' change_id No_fault
                  (False, one_professional)))) = None"
  by code_simp

text \<open>
  C8, amended. For a signed-in user and a patch that leaves \<^verbatim>\<open>id\<close> as it is
  (absent, or equal to the id being updated): when
  \<^verbatim>\<open>updateProfessional\<close> succeeds and returns \<open>r'\<close>, exactly one row \<open>r\<close> of the
  user had that id before, \<open>r'\<close> is \<open>r\<close> with the fields of the patch replaced and
  the others kept (\<open>apply_patch_fields\<close>), and \<^verbatim>\<open>getProfessionalById\<close> on the
  same id, answered by the store without error, returns \<open>r'\<close>.
\<close>

theorem update_then_read:
  assumes "user a = Some uid" "upd_id p = None \<or> upd_id p = Some pid"
    and "fst (updateProfessional a pid p f (l, e)) = Some r'"
  shows "\<exists>r. filter (owned_by pid uid) (professionals (store e)) = [r]
            \<and> r' = apply_patch p r
            \<and> fst (getProfessionalById a pid No_fault (snd (updateProfessional a pid p f (l, e))))
                = Some r'"
proof -
  from update_success [OF assms(1,3)] obtain r where
    r: "filter (owned_by pid uid) (professionals (store e)) = [r]" "r' = apply_patch p r"
    and st: "professionals (store (snd (snd (updateProfessional a pid p f (l, e)))))
           = map (\<lambda>r. if owned_by pid uid r then apply_patch p r else r) (professionals (store e))"
    by blast
  have "filter (owned_by pid uid)
          (professionals (store (snd (snd (updateProfessional a pid p f (l, e))))))
        = [apply_patch p r]"
    by (simp add: st filter_patched [OF assms(2)] r(1))
  then have "fst (getProfessionalById a pid No_fault
        (fst (snd (updateProfessional a pid p f (l, e))),
         snd (snd (updateProfessional a pid p f (l, e)))))
      = Some (apply_patch p r)"
    by (rule getById_unique [OF assms(1)])
  with r show ?thesis by simp
qed

lemma rename_succeeds:
  "fst (updateProfessional (signed_in ''u1'') ''p1'' rename No_fault (False, one_professional))
     = Some ((new_row dr_ana ''p1'' ''u1'')\<lparr>nome := ''Ana Lima''\<rparr>)"
  by code_simp

theorem update_then_read_witness:
  "user (signed_in ''u1'') = Some ''u1''
   \<and> (upd_id rename = None \<or> upd_id rename = Some ''p1'')
   \<and> fst (updateProfessional (signed_in ''u1'') ''p1'' rename No_fault (False, one_professional))
       = Some ((new_row dr_ana ''p1'' ''u1'')\<lparr>nome := ''Ana Lima''\<rparr>)
   \<and> fst (getProfessionalById (signed_in ''u1'') ''p1'' No_fault
           (snd (updateProfessional (signed_in ''u1'') ''p1'' rename No_fault
                  (False, one_professional))))
       = Some ((new_row dr_ana ''p1'' ''u1'')\<lparr>nome := ''Ana Lima''\<rparr>)"
proof -
  have h: "user (signed_in ''u1'') = Some ''u1''"
    "upd_id rename = None \<or> upd_id rename = Some ''p1''"
    by (simp_all add: signed_in_def rename_def no_patch_def)
  show ?thesis
    using h update_then_read [OF h rename_succeeds] rename_succeeds by auto
qed

end
